theory Spec2Isabelle
  imports Complex_Main "HOL-Library.Sublist"
begin

section \<open>Vectors and world transforms\<close>

text \<open>
  The source computes with \<open>maya.OpenMaya.MVector\<close> (three doubles) and with the world
  matrices that \<open>pm.xform(..., ws=True, matrix=True, q=True)\<close> returns.  Components are
  modelled as real numbers: the arithmetic of the vector library is taken exactly, and
  the rounding, overflow and underflow of doubles are not modelled.  A world matrix is
  affine, its fourth column is the constant (0,0,0,1), so it is kept as its three axis
  rows and its translation row.
\<close>

datatype MVector = MVector (vx: real) (vy: real) (vz: real)

datatype MMatrix =
  MMatrix (xaxis: MVector) (yaxis: MVector) (zaxis: MVector) (translation: MVector)

instantiation MVector :: "{zero, plus, minus}"
begin

definition zero_MVector :: MVector where
  "zero_MVector = MVector 0 0 0"

definition plus_MVector :: "MVector \<Rightarrow> MVector \<Rightarrow> MVector" where
  "plus_MVector a b = MVector (vx a + vx b) (vy a + vy b) (vz a + vz b)"

definition minus_MVector :: "MVector \<Rightarrow> MVector \<Rightarrow> MVector" where
  "minus_MVector a b = MVector (vx a - vx b) (vy a - vy b) (vz a - vz b)"

instance ..

end

text \<open>\<open>v * k\<close> for a float \<open>k\<close>.\<close>

definition vscale :: "MVector \<Rightarrow> real \<Rightarrow> MVector" where
  "vscale v k = MVector (vx v * k) (vy v * k) (vz v * k)"

text \<open>\<open>v * w\<close> for two vectors: the dot product.\<close>

definition vdot :: "MVector \<Rightarrow> MVector \<Rightarrow> real" where
  "vdot a b = vx a * vx b + vy a * vy b + vz a * vz b"

text \<open>\<open>v.length()\<close>.\<close>

definition vlength :: "MVector \<Rightarrow> real" where
  "vlength v = sqrt (vx v * vx v + vy v * vy v + vz v * vz v)"

text \<open>
  \<open>v * m\<close> for a matrix \<open>m\<close>: a direction is a row vector with weight 0, so only the
  rotational rows take part and the translation row is ignored.
\<close>

definition vtimes :: "MVector \<Rightarrow> MMatrix \<Rightarrow> MVector" where
  "vtimes v m =
     vscale (xaxis m) (vx v) + vscale (yaxis m) (vy v) + vscale (zaxis m) (vz v)"

definition identity_axes :: "MVector \<times> MVector \<times> MVector" where
  "identity_axes = (MVector 1 0 0, MVector 0 1 0, MVector 0 0 1)"

section \<open>Errors\<close>

text \<open>
  \<open>MissingNode\<close>, \<open>DuplicationFailed\<close> and \<open>RuntimeError\<close> (any other refusal) are
  raised by the host, \<open>IndexError\<close> and
  \<open>UnboundLocalError\<close> by the Python interpreter.  \<open>ZeroLength\<close> stands for a division
  by a zero length inside the vector library: what the library does there (an exception
  or non-finite components) is outside a model over the reals, which stops at that
  point.
\<close>

datatype error =
  MissingNode | DuplicationFailed | RuntimeError | IndexError | UnboundLocalError | ZeroLength

text \<open>\<open>v / k\<close> for a float \<open>k\<close>.\<close>

definition vdiv :: "MVector \<Rightarrow> real \<Rightarrow> error + MVector" where
  "vdiv v k = (if k = 0 then Inl ZeroLength else Inr (MVector (vx v / k) (vy v / k) (vz v / k)))"

text \<open>\<open>v.normal()\<close>: the vector scaled to unit length.\<close>

definition normal :: "MVector \<Rightarrow> error + MVector" where
  "normal v = vdiv v (vlength v)"

section \<open>The scene graph of the host\<close>

type_synonym node = string

text \<open>The host commands the source issues, in the form they are recorded in the log.\<close>

datatype cmd =
    GetAttr string
  | SetAttr string real
  | QueryTranslation node
  | QueryMatrix node
  | SetMatrix node MMatrix
  | MoveAbs node MVector
  | MoveRel node MVector
  | SetRotate node MVector
  | Duplicate node
  | ListRelatives node
  | Parent node node
  | Delete node
  | SetKeyframe "node list"

text \<open>
  A mocked scene.  \<open>attrs\<close> holds the plugs by their full name (\<open>node.attr\<close>);
  \<open>poses\<close> gives every existing node its world transform as the dependency graph
  evaluates it under the current plug values (a limb joint follows the IK or the FK chain
  according to the blend plug); \<open>parents\<close> is the hierarchy; \<open>rotate\<close> is the local
  rotate channel where a command has written it; \<open>keys\<close> collects the keyed nodes;
  \<open>log\<close> records every command issued.
\<close>

record scene =
  attrs :: "string \<rightharpoonup> real"
  poses :: "node \<rightharpoonup> ((string \<rightharpoonup> real) \<Rightarrow> MMatrix)"
  parents :: "node \<rightharpoonup> node"
  rotate :: "node \<rightharpoonup> MVector"
  keys :: "node list"
  log :: "cmd list"

definition nodes :: "scene \<Rightarrow> node set" where
  "nodes s = dom (poses s)"

text \<open>The world matrix of a node as evaluated now.\<close>

definition world :: "scene \<Rightarrow> node \<Rightarrow> MMatrix option" where
  "world s n = (case poses s n of None \<Rightarrow> None | Some p \<Rightarrow> Some (p (attrs s)))"

section \<open>Commands with side effects and exceptions\<close>

text \<open>
  A command takes the scene and returns the scene it leaves behind together with either
  its value or the exception it raised: the effects made before an exception stay.
\<close>

type_synonym 'a maya = "scene \<Rightarrow> (error + 'a) \<times> scene"

definition returnM :: "'a \<Rightarrow> 'a maya" where
  "returnM a s = (Inr a, s)"

definition raiseM :: "error \<Rightarrow> 'a maya" where
  "raiseM e s = (Inl e, s)"

definition bindM :: "'a maya \<Rightarrow> ('a \<Rightarrow> 'b maya) \<Rightarrow> 'b maya" where
  "bindM m f s = (case m s of (Inl e, s') \<Rightarrow> (Inl e, s') | (Inr a, s') \<Rightarrow> f a s')"

definition liftE :: "error + 'a \<Rightarrow> 'a maya" where
  "liftE r s = (r, s)"

definition record_cmd :: "cmd \<Rightarrow> scene \<Rightarrow> scene" where
  "record_cmd c s = s\<lparr>log := log s @ [c]\<rparr>"

subsection \<open>Python list indexing\<close>

definition py_index :: "'a list \<Rightarrow> nat \<Rightarrow> 'a maya" where
  "py_index xs i = (if i < length xs then returnM (xs ! i) else raiseM IndexError)"

text \<open>\<open>xs[-1]\<close>\<close>

definition py_last :: "'a list \<Rightarrow> 'a maya" where
  "py_last xs = (if xs = [] then raiseM IndexError else returnM (last xs))"

subsection \<open>Host commands\<close>

text \<open>\<open>pm.getAttr(a)\<close>\<close>

definition getAttr :: "string \<Rightarrow> real maya" where
  "getAttr a s =
     (let s1 = record_cmd (GetAttr a) s in
      case attrs s1 a of None \<Rightarrow> (Inl MissingNode, s1) | Some v \<Rightarrow> (Inr v, s1))"

text \<open>\<open>pm.setAttr(a, v)\<close>\<close>

definition setAttr :: "string \<Rightarrow> real \<Rightarrow> unit maya" where
  "setAttr a v s =
     (let s1 = record_cmd (SetAttr a v) s in
      case attrs s1 a of
        None \<Rightarrow> (Inl MissingNode, s1)
      | Some _ \<Rightarrow> (Inr (), s1\<lparr>attrs := (attrs s1)(a \<mapsto> v)\<rparr>))"

text \<open>
  \<open>pm.xform(n, ws=True, t=True, q=True)\<close>; the source copies the three entries of the
  returned list into an \<open>MVector\<close>, which is the value returned here.
\<close>

definition xform_q_translation :: "node \<Rightarrow> MVector maya" where
  "xform_q_translation n s =
     (let s1 = record_cmd (QueryTranslation n) s in
      case world s1 n of
        None \<Rightarrow> (Inl MissingNode, s1)
      | Some m \<Rightarrow> (Inr (translation m), s1))"

text \<open>
  \<open>pm.xform(n, ws=True, matrix=True, q=True)\<close>; the sixteen entries returned are read
  as the world matrix they list.
\<close>

definition xform_q_matrix :: "node \<Rightarrow> MMatrix maya" where
  "xform_q_matrix n s =
     (let s1 = record_cmd (QueryMatrix n) s in
      case world s1 n of
        None \<Rightarrow> (Inl MissingNode, s1)
      | Some m \<Rightarrow> (Inr m, s1))"

text \<open>\<open>pm.xform(n, ws=True, matrix=m)\<close>: the node is pinned to the world matrix \<open>m\<close>.\<close>

definition xform_matrix :: "node \<Rightarrow> MMatrix \<Rightarrow> unit maya" where
  "xform_matrix n m s =
     (let s1 = record_cmd (SetMatrix n m) s in
      case poses s1 n of
        None \<Rightarrow> (Inl MissingNode, s1)
      | Some _ \<Rightarrow>
          (Inr (), s1\<lparr>poses := (poses s1)(n \<mapsto> (\<lambda>_. m)), rotate := (rotate s1)(n := None)\<rparr>))"

text \<open>\<open>pm.move(x, y, z, n)\<close>: an absolute move in world space; the axes stay.\<close>

definition move_abs :: "MVector \<Rightarrow> node \<Rightarrow> unit maya" where
  "move_abs v n s =
     (let s1 = record_cmd (MoveAbs n v) s in
      case poses s1 n of
        None \<Rightarrow> (Inl MissingNode, s1)
      | Some p \<Rightarrow>
          (Inr (), s1\<lparr>poses := (poses s1)(n \<mapsto>
             (\<lambda>a. MMatrix (xaxis (p a)) (yaxis (p a)) (zaxis (p a)) v))\<rparr>))"

text \<open>\<open>pm.move(n, v, r=True, ws=True)\<close>: a relative move in world space.\<close>

definition move_rel :: "node \<Rightarrow> MVector \<Rightarrow> unit maya" where
  "move_rel n v s =
     (let s1 = record_cmd (MoveRel n v) s in
      case poses s1 n of
        None \<Rightarrow> (Inl MissingNode, s1)
      | Some p \<Rightarrow>
          (Inr (), s1\<lparr>poses := (poses s1)(n \<mapsto>
             (\<lambda>a. MMatrix (xaxis (p a)) (yaxis (p a)) (zaxis (p a)) (translation (p a) + v)))\<rparr>))"

text \<open>
  \<open>n.rotate.set(0, 0, 0)\<close>: the local rotate channel becomes zero, so the node takes
  the axes of its parent (the identity axes at the top of the hierarchy) and keeps its
  position.
\<close>

definition parent_axes :: "scene \<Rightarrow> node \<Rightarrow> (string \<rightharpoonup> real) \<Rightarrow> MVector \<times> MVector \<times> MVector" where
  "parent_axes s n a =
     (case parents s n of
        None \<Rightarrow> identity_axes
      | Some q \<Rightarrow>
          (case poses s q of
             None \<Rightarrow> identity_axes
           | Some p \<Rightarrow> (xaxis (p a), yaxis (p a), zaxis (p a))))"

definition rotate_set_zero :: "node \<Rightarrow> unit maya" where
  "rotate_set_zero n s =
     (let s1 = record_cmd (SetRotate n (MVector 0 0 0)) s in
      case poses s1 n of
        None \<Rightarrow> (Inl MissingNode, s1)
      | Some p \<Rightarrow>
          (Inr (), s1\<lparr>poses := (poses s1)(n \<mapsto>
                       (\<lambda>a. case parent_axes s1 n a of
                               (ax, ay, az) \<Rightarrow> MMatrix ax ay az (translation (p a)))),
                     rotate := (rotate s1)(n \<mapsto> MVector 0 0 0)\<rparr>))"

text \<open>
  The name the host gives a duplicate: the first unused one among the source's name
  followed by one, two, ... digits.
\<close>

fun unused_name :: "(node \<Rightarrow> bool) \<Rightarrow> node \<Rightarrow> nat \<Rightarrow> node option" where
  "unused_name used base 0 = None"
| "unused_name used base (Suc k) =
     (let c = base @ ''1'' in if used c then unused_name used c k else Some c)"

definition proxy_name :: "(node \<rightharpoonup> 'a) \<Rightarrow> node \<Rightarrow> node option" where
  "proxy_name ps source = unused_name (\<lambda>n. ps n \<noteq> None) source 64"

text \<open>
  \<open>pm.duplicate(source, po=True)\<close>: a copy of the node alone, under the same parent
  and with the same transform; the list of the new nodes is returned.
\<close>

definition duplicate :: "node \<Rightarrow> node list maya" where
  "duplicate source s =
     (let s1 = record_cmd (Duplicate source) s in
      case poses s1 source of
        None \<Rightarrow> (Inl MissingNode, s1)
      | Some p \<Rightarrow>
          (case proxy_name (poses s1) source of
             None \<Rightarrow> (Inl DuplicationFailed, s1)
           | Some d \<Rightarrow>
               (Inr [d], s1\<lparr>poses := (poses s1)(d \<mapsto> p),
                            parents := (parents s1)(d := parents s1 source),
                            rotate := (rotate s1)(d := rotate s1 source)\<rparr>)))"

text \<open>\<open>pm.listRelatives(n, parent=True)\<close>: the parent in a list, or the empty list.\<close>

definition listRelatives :: "node \<Rightarrow> node list maya" where
  "listRelatives n s =
     (let s1 = record_cmd (ListRelatives n) s in
      case poses s1 n of
        None \<Rightarrow> (Inl MissingNode, s1)
      | Some _ \<Rightarrow> (Inr (case parents s1 n of None \<Rightarrow> [] | Some q \<Rightarrow> [q]), s1))"

text \<open>
  \<open>pm.parent(child, new_parent)\<close>.  In the mocked scene the re-parented node evaluates
  to the pose of its new parent: it sits wherever the hierarchy that drives the parent
  places it.  A node cannot become its own parent.
\<close>

definition parent :: "node \<Rightarrow> node \<Rightarrow> unit maya" where
  "parent child new_parent s =
     (let s1 = record_cmd (Parent child new_parent) s in
      case poses s1 child of
        None \<Rightarrow> (Inl MissingNode, s1)
      | Some _ \<Rightarrow>
          (case poses s1 new_parent of
             None \<Rightarrow> (Inl MissingNode, s1)
           | Some q \<Rightarrow>
               if child = new_parent then (Inl RuntimeError, s1)
               else (Inr (), s1\<lparr>poses := (poses s1)(child \<mapsto> q),
                           parents := (parents s1)(child \<mapsto> new_parent),
                           rotate := (rotate s1)(child := None)\<rparr>)))"

text \<open>\<open>pm.delete(n)\<close>\<close>

definition delete :: "node \<Rightarrow> unit maya" where
  "delete n s =
     (let s1 = record_cmd (Delete n) s in
      case poses s1 n of
        None \<Rightarrow> (Inl MissingNode, s1)
      | Some _ \<Rightarrow>
          (Inr (), s1\<lparr>poses := (poses s1)(n := None),
                      parents := (parents s1)(n := None),
                      rotate := (rotate s1)(n := None)\<rparr>))"

text \<open>\<open>pm.setKeyframe(ns)\<close>\<close>

definition setKeyframe :: "node list \<Rightarrow> unit maya" where
  "setKeyframe ns s =
     (let s1 = record_cmd (SetKeyframe ns) s in
      if list_all (\<lambda>n. poses s1 n \<noteq> None) ns then (Inr (), s1\<lparr>keys := keys s1 @ ns\<rparr>)
      else (Inl MissingNode, s1))"

section \<open>snap\<close>

text \<open>Lines 298 to 333 of \<open>ikfk_snap.py\<close>.\<close>

definition snap :: "node \<Rightarrow> node \<Rightarrow> string \<Rightarrow> real \<Rightarrow> unit maya" where
  "snap source target attr value =
     bindM (setAttr attr value) (\<lambda>_.
     bindM (duplicate source) (\<lambda>dups.
     bindM (py_index dups 0) (\<lambda>dup_source.
     bindM (listRelatives source) (\<lambda>rels.
     bindM (py_index rels 0) (\<lambda>source_parent.
     bindM (parent dup_source target) (\<lambda>_.
     bindM (setAttr attr (1 - value)) (\<lambda>_.
     bindM (xform_q_matrix dup_source) (\<lambda>transforms.
     bindM (xform_matrix source transforms) (\<lambda>_.
     delete dup_source)))))))))"

section \<open>ik_to_fk\<close>

text \<open>\<open>"leg" in str(blend_ctl)\<close>\<close>

definition is_leg :: "node \<Rightarrow> bool" where
  "is_leg blend_ctl = sublist ''leg'' blend_ctl"

text \<open>Lines 43 to 51: the world positions of the three FK controls.\<close>

definition ik_to_fk_positions :: "node list \<Rightarrow> (MVector \<times> MVector \<times> MVector) maya" where
  "ik_to_fk_positions fk_list =
     bindM (py_index fk_list 0) (\<lambda>fk_001.
     bindM (xform_q_translation fk_001) (\<lambda>fk_001_pos.
     bindM (py_index fk_list 1) (\<lambda>fk_002.
     bindM (xform_q_translation fk_002) (\<lambda>fk_002_pos.
     bindM (py_index fk_list 2) (\<lambda>fk_003.
     bindM (xform_q_translation fk_003) (\<lambda>fk_003_pos.
     returnM (fk_001_pos, fk_002_pos, fk_003_pos)))))))"

text \<open>Lines 53 to 57: the IK handle is snapped, or only moved.\<close>

definition ik_to_fk_handle :: "node list \<Rightarrow> node \<Rightarrow> node \<Rightarrow> bool \<Rightarrow> MVector \<Rightarrow> unit maya" where
  "ik_to_fk_handle ikm_list ik_handle blend_ctl ik_rotation fk_003_pos =
     (if ik_rotation then
        bindM (py_index ikm_list 2) (\<lambda>ikm_003.
        snap ik_handle ikm_003 (blend_ctl @ ''.blend'') 1)
      else move_abs fk_003_pos ik_handle)"

text \<open>
  Lines 59 to 68: the segment lengths and the two unit vectors.  The value is
  \<open>(upper_length, total_length, root_goal_norm, root_mid_norm)\<close>.
\<close>

definition ik_to_fk_lengths ::
  "MVector \<Rightarrow> MVector \<Rightarrow> MVector \<Rightarrow> error + (real \<times> real \<times> MVector \<times> MVector)" where
  "ik_to_fk_lengths fk_001_pos fk_002_pos fk_003_pos =
     (let root_mid = fk_002_pos - fk_001_pos;
          mid_goal = fk_003_pos - fk_002_pos;
          root_goal = fk_003_pos - fk_001_pos;
          upper_length = vlength root_mid;
          lower_length = vlength mid_goal;
          total_length = upper_length + lower_length
      in case normal root_goal of
           Inl e \<Rightarrow> Inl e
         | Inr root_goal_norm \<Rightarrow>
             (case vdiv root_mid upper_length of
                Inl e \<Rightarrow> Inl e
              | Inr root_mid_norm \<Rightarrow>
                  Inr (upper_length, total_length, root_goal_norm, root_mid_norm)))"

text \<open>
  Lines 74 to 84: the direction in which the pole is pushed away from the mid joint.
  The test of line 80 is decided here on the exact cosine.  The source compares the
  double that the vector library computed, which differs from the exact cosine by the
  rounding of a few operations: for a chain whose cosine is within that rounding error
  of 0.998 the source may take either branch, whatever this definition does.  The
  statements about the two branches are therefore made for chains whose cosine is at
  least 0.001 away from the threshold.
\<close>

definition ik_to_fk_pole_y ::
  "MVector \<Rightarrow> MVector \<Rightarrow> real \<Rightarrow> MVector \<Rightarrow> MVector \<Rightarrow> MMatrix \<Rightarrow> error + MVector" where
  "ik_to_fk_pole_y fk_001_pos fk_002_pos upper_length root_goal_norm root_mid_norm mid_world =
     (let negate = 1;
          upper_goal_angle = vdot root_mid_norm root_goal_norm
      in if upper_goal_angle > 0.998 then Inr (vtimes (MVector 0 negate 0) mid_world)
         else (let goal_project =
                     fk_001_pos + vscale (vscale root_goal_norm upper_length) upper_goal_angle
               in normal (fk_002_pos - goal_project)))"

text \<open>Lines 59 to 87: the pole control is placed.\<close>

definition ik_to_fk_pole ::
  "node list \<Rightarrow> node \<Rightarrow> MVector \<Rightarrow> MVector \<Rightarrow> MVector \<Rightarrow> unit maya" where
  "ik_to_fk_pole fk_list ik_pole fk_001_pos fk_002_pos fk_003_pos =
     bindM (liftE (ik_to_fk_lengths fk_001_pos fk_002_pos fk_003_pos))
       (\<lambda>(upper_length, total_length, root_goal_norm, root_mid_norm).
     bindM (py_index fk_list 1) (\<lambda>fk_002.
     bindM (xform_q_matrix fk_002) (\<lambda>mid_world.
     bindM (xform_matrix ik_pole mid_world) (\<lambda>_.
     bindM (liftE (ik_to_fk_pole_y fk_001_pos fk_002_pos upper_length
                     root_goal_norm root_mid_norm mid_world)) (\<lambda>pole_y.
     bindM (move_rel ik_pole (vscale pole_y total_length)) (\<lambda>_.
     rotate_set_zero ik_pole))))))"

text \<open>
  Lines 90 to 98: the ball of the foot.  The value is the binding of the local variable
  \<open>ball_ik\<close> afterwards: \<open>None\<close> when it was never assigned.
\<close>

definition ik_to_fk_foot :: "node list \<Rightarrow> node \<Rightarrow> node \<Rightarrow> node option maya" where
  "ik_to_fk_foot fk_list ik_ball blend_ctl =
     (if is_leg blend_ctl then
        (let ball_ik = ik_ball in
         bindM (py_last fk_list) (\<lambda>ball_fk.
         bindM (xform_q_matrix ball_fk) (\<lambda>ball_matrix.
         bindM (xform_matrix ball_ik ball_matrix) (\<lambda>_.
         returnM (Some ball_ik)))))
      else returnM None)"

text \<open>Reading a local variable: unbound when it has no binding.\<close>

definition read_local :: "'a option \<Rightarrow> 'a maya" where
  "read_local v = (case v of None \<Rightarrow> raiseM UnboundLocalError | Some a \<Rightarrow> returnM a)"

text \<open>The truth value of a name: a non-empty string.\<close>

definition truthy :: "node \<Rightarrow> bool" where
  "truthy n = (n \<noteq> [])"

text \<open>Lines 104 to 108: the keyframes.\<close>

definition ik_to_fk_keys :: "node \<Rightarrow> node \<Rightarrow> node option \<Rightarrow> bool \<Rightarrow> unit maya" where
  "ik_to_fk_keys ik_handle ik_pole ball_ik key =
     (if key then
        bindM (setKeyframe [ik_handle, ik_pole]) (\<lambda>_.
        bindM (read_local ball_ik) (\<lambda>b.
        if truthy b then setKeyframe [b] else returnM ()))
      else returnM ())"

text \<open>Lines 5 to 108.\<close>

definition ik_to_fk ::
  "node list \<Rightarrow> node list \<Rightarrow> node \<Rightarrow> node \<Rightarrow> node \<Rightarrow> node \<Rightarrow> node \<Rightarrow> bool \<Rightarrow> bool \<Rightarrow> unit maya" where
  "ik_to_fk fk_list ikm_list ik_handle ik_pole ik_offset ik_ball blend_ctl ik_rotation key =
     bindM (getAttr (blend_ctl @ ''.blend'')) (\<lambda>blend_attr.
     bindM (setAttr (ik_handle @ ''.ikRoll'') 0) (\<lambda>_.
     bindM (ik_to_fk_positions fk_list) (\<lambda>(fk_001_pos, fk_002_pos, fk_003_pos).
     bindM (ik_to_fk_handle ikm_list ik_handle blend_ctl ik_rotation fk_003_pos) (\<lambda>_.
     bindM (ik_to_fk_pole fk_list ik_pole fk_001_pos fk_002_pos fk_003_pos) (\<lambda>_.
     bindM (ik_to_fk_foot fk_list ik_ball blend_ctl) (\<lambda>ball_ik.
     bindM (setAttr (blend_ctl @ ''.blend'') blend_attr) (\<lambda>_.
     ik_to_fk_keys ik_handle ik_pole ball_ik key)))))))"

section \<open>fk_to_ik\<close>

text \<open>
  Lines 136 to 143: the ball of the foot.  The value is the binding of the local
  variable \<open>ball_fk\<close> afterwards.
\<close>

definition fk_to_ik_foot :: "node list \<Rightarrow> node list \<Rightarrow> node \<Rightarrow> node option maya" where
  "fk_to_ik_foot fk_list ikm_list blend_ctl =
     (if is_leg blend_ctl then
        bindM (py_last ikm_list) (\<lambda>ball_ikm.
        bindM (py_last fk_list) (\<lambda>ball_fk.
        bindM (snap ball_fk ball_ikm (blend_ctl @ ''.blend'') 0) (\<lambda>_.
        returnM (Some ball_fk))))
      else returnM None)"

text \<open>Lines 147 to 151: the keyframes.\<close>

definition fk_to_ik_keys :: "node list \<Rightarrow> node option \<Rightarrow> bool \<Rightarrow> unit maya" where
  "fk_to_ik_keys fk_list ball_fk key =
     (if key then
        bindM (setKeyframe fk_list) (\<lambda>_.
        bindM (read_local ball_fk) (\<lambda>b.
        if truthy b then setKeyframe [b] else returnM ()))
      else returnM ())"

text \<open>One call \<open>snap(fk_list[i], ikm_list[i], blend_ctl+".blend", 0)\<close> of lines 132 to 134.\<close>

definition fk_to_ik_joint :: "node list \<Rightarrow> node list \<Rightarrow> node \<Rightarrow> nat \<Rightarrow> unit maya" where
  "fk_to_ik_joint fk_list ikm_list blend_ctl i =
     bindM (py_index fk_list i) (\<lambda>fk.
     bindM (py_index ikm_list i) (\<lambda>ikm.
     snap fk ikm (blend_ctl @ ''.blend'') 0))"

text \<open>Lines 111 to 151.\<close>

definition fk_to_ik ::
  "node list \<Rightarrow> node list \<Rightarrow> node list \<Rightarrow> node \<Rightarrow> node \<Rightarrow> bool \<Rightarrow> unit maya" where
  "fk_to_ik fk_list fk_offset_list ikm_list ik_ball blend_ctl key =
     bindM (getAttr (blend_ctl @ ''.blend'')) (\<lambda>blend_attr.
     bindM (fk_to_ik_joint fk_list ikm_list blend_ctl 0) (\<lambda>_.
     bindM (fk_to_ik_joint fk_list ikm_list blend_ctl 1) (\<lambda>_.
     bindM (fk_to_ik_joint fk_list ikm_list blend_ctl 2) (\<lambda>_.
     bindM (fk_to_ik_foot fk_list ikm_list blend_ctl) (\<lambda>ball_fk.
     bindM (setAttr (blend_ctl @ ''.blend'') blend_attr) (\<lambda>_.
     fk_to_ik_keys fk_list ball_fk key))))))"

section \<open>Notions used in the statements\<close>

text \<open>
  What \<open>snap\<close> needs to run to its end: the blend plug, the source and the target
  exist, the source has a parent, and the host finds a name for the duplicate.
\<close>

definition snap_ready :: "scene \<Rightarrow> node \<Rightarrow> node \<Rightarrow> string \<Rightarrow> bool" where
  "snap_ready s source target attr =
     (attrs s attr \<noteq> None \<and> poses s source \<noteq> None \<and> parents s source \<noteq> None \<and>
      poses s target \<noteq> None \<and> proxy_name (poses s) source \<noteq> None)"

text \<open>
  The commands of one complete run of \<open>snap\<close> with the proxy \<open>d\<close> and the matrix
  \<open>m\<close> read from it.
\<close>

definition snap_trace :: "node \<Rightarrow> node \<Rightarrow> string \<Rightarrow> real \<Rightarrow> node \<Rightarrow> MMatrix \<Rightarrow> cmd list" where
  "snap_trace source target attr value d m =
     [SetAttr attr value, Duplicate source, ListRelatives source, Parent d target,
      SetAttr attr (1 - value), QueryMatrix d, SetMatrix source m, Delete d]"


text \<open>The scene a complete run of \<open>snap\<close> leaves behind.\<close>

definition snap_result :: "scene \<Rightarrow> node \<Rightarrow> node \<Rightarrow> string \<Rightarrow> real \<Rightarrow> scene" where
  "snap_result s source target attr value =
     (let d = the (proxy_name (poses s) source);
          m = the (poses s target) ((attrs s)(attr \<mapsto> 1 - value))
      in s\<lparr>attrs := (attrs s)(attr \<mapsto> 1 - value),
           poses := (poses s)(source \<mapsto> (\<lambda>_. m)),
           parents := (parents s)(d := None),
           rotate := (rotate s)(d := None, source := None),
           log := log s @ snap_trace source target attr value d m\<rparr>)"

text \<open>The commands a call has issued: what it appended to the log.\<close>

definition issued :: "scene \<Rightarrow> scene \<Rightarrow> cmd list" where
  "issued s s' = drop (length (log s)) (log s')"

text \<open>
  The transfers among the commands issued: the sources duplicated by \<open>snap\<close>, the
  nodes a world matrix was written to, and the nodes moved by a relative move (the push
  of the pole control away from the mid joint).
\<close>

fun duplicate_of :: "cmd \<Rightarrow> node list" where
  "duplicate_of (Duplicate n) = [n]"
| "duplicate_of _ = []"

fun set_matrix_of :: "cmd \<Rightarrow> node list" where
  "set_matrix_of (SetMatrix n m) = [n]"
| "set_matrix_of _ = []"

fun move_rel_of :: "cmd \<Rightarrow> node list" where
  "move_rel_of (MoveRel n v) = [n]"
| "move_rel_of _ = []"

definition tally :: "cmd list \<Rightarrow> node list \<times> node list \<times> node list" where
  "tally cs =
     (concat (map duplicate_of cs), concat (map set_matrix_of cs), concat (map move_rel_of cs))"

definition snapped :: "cmd list \<Rightarrow> node list" where
  "snapped cs = fst (tally cs)"

definition matrix_written :: "cmd list \<Rightarrow> node list" where
  "matrix_written cs = fst (snd (tally cs))"

definition moved_rel :: "cmd list \<Rightarrow> node list" where
  "moved_rel cs = snd (snd (tally cs))"

definition tplus ::
  "node list \<times> node list \<times> node list \<Rightarrow> node list \<times> node list \<times> node list \<Rightarrow>
   node list \<times> node list \<times> node list" where
  "tplus t u = (fst t @ fst u, fst (snd t) @ fst (snd u), snd (snd t) @ snd (snd u))"

text \<open>The commands that \<open>m\<close> issues when run in \<open>s\<close> tally to \<open>T\<close>.\<close>

definition logs :: "'a maya \<Rightarrow> scene \<Rightarrow> node list \<times> node list \<times> node list \<Rightarrow> bool" where
  "logs m s T = (\<exists>zs. log (snd (m s)) = log s @ zs \<and> tally zs = T)"

text \<open>
  The geometry of a chain of three joints, in the words of the specification: the unit
  vector of a direction, the cosine of the angle at the root between the upper segment and
  the line from the root to the end, the projection of the mid joint onto that line, and
  the plane of the three joints.
\<close>

definition unit :: "MVector \<Rightarrow> MVector" where
  "unit v = MVector (vx v / vlength v) (vy v / vlength v) (vz v / vlength v)"

definition cos_angle :: "MVector \<Rightarrow> MVector \<Rightarrow> MVector \<Rightarrow> real" where
  "cos_angle rootPos midPos endPos = vdot (unit (midPos - rootPos)) (unit (endPos - rootPos))"

definition total_length :: "MVector \<Rightarrow> MVector \<Rightarrow> MVector \<Rightarrow> real" where
  "total_length rootPos midPos endPos = vlength (midPos - rootPos) + vlength (endPos - midPos)"

definition goal_projection :: "MVector \<Rightarrow> MVector \<Rightarrow> MVector \<Rightarrow> MVector" where
  "goal_projection rootPos midPos endPos =
     rootPos + vscale (vscale (unit (endPos - rootPos)) (vlength (midPos - rootPos)))
                 (cos_angle rootPos midPos endPos)"

definition cross :: "MVector \<Rightarrow> MVector \<Rightarrow> MVector" where
  "cross a b =
     MVector (vy a * vz b - vz a * vy b) (vz a * vx b - vx a * vz b) (vx a * vy b - vy a * vx b)"


text \<open>The world position of a node as evaluated now.\<close>

definition position :: "scene \<Rightarrow> node \<Rightarrow> MVector option" where
  "position s n = map_option translation (world s n)"

text \<open>
  What \<open>ik_to_fk\<close> needs to get as far as the pole: the two plugs exist; the three FK
  controls exist and are not driven by any plug, with the given world matrices; the
  handle can be snapped, or moved; the handle is not the mid FK control; the pole control
  exists, and on a leg it is not the IK ball control.
\<close>

definition limb_ready ::
  "scene \<Rightarrow> node list \<Rightarrow> node list \<Rightarrow> node \<Rightarrow> node \<Rightarrow> node \<Rightarrow> node \<Rightarrow> bool \<Rightarrow>
   MMatrix \<Rightarrow> MMatrix \<Rightarrow> MMatrix \<Rightarrow> bool" where
  "limb_ready s fk_list ikm_list ik_handle ik_pole ik_ball blend_ctl ik_rotation
     root_world mid_world end_world =
     (attrs s (blend_ctl @ ''.blend'') \<noteq> None \<and> attrs s (ik_handle @ ''.ikRoll'') \<noteq> None \<and>
      2 < length fk_list \<and>
      poses s (fk_list ! 0) = Some (\<lambda>_. root_world) \<and>
      poses s (fk_list ! 1) = Some (\<lambda>_. mid_world) \<and>
      poses s (fk_list ! 2) = Some (\<lambda>_. end_world) \<and>
      (if ik_rotation
       then 2 < length ikm_list \<and>
            snap_ready s ik_handle (ikm_list ! 2) (blend_ctl @ ''.blend'')
       else poses s ik_handle \<noteq> None) \<and>
      ik_handle \<noteq> fk_list ! 1 \<and> poses s ik_pole \<noteq> None \<and>
      (is_leg blend_ctl \<longrightarrow> ik_ball \<noteq> ik_pole))"

text \<open>The pole control sits at \<open>p\<close>, whatever the plugs are, with a zero rotate channel.\<close>

definition pole_at :: "node \<Rightarrow> MVector \<Rightarrow> scene \<Rightarrow> bool" where
  "pole_at ik_pole p s =
     ((\<exists>F. poses s ik_pole = Some F \<and> (\<forall>a. translation (F a) = p)) \<and>
      rotate s ik_pole = Some (MVector 0 0 0))"

text \<open>A property of the scene that a command keeps, however it ends.\<close>

definition preserves :: "(scene \<Rightarrow> bool) \<Rightarrow> 'a maya \<Rightarrow> bool" where
  "preserves I m = (\<forall>s. I s \<longrightarrow> I (snd (m s)))"

section \<open>A rig to run the code on\<close>

definition identity_matrix :: "MVector \<Rightarrow> MMatrix" where
  "identity_matrix t = MMatrix (MVector 1 0 0) (MVector 0 1 0) (MVector 0 0 1) t"

text \<open>
  One limb under the group \<open>rig\<close>: three FK controls at the given world matrices and
  a fourth for the ball, four joints that follow the FK controls while the blend plug is 0
  and the IK solution otherwise, the IK handle, the pole control and the IK ball control.
\<close>

definition limb_scene :: "node \<Rightarrow> MMatrix \<Rightarrow> MMatrix \<Rightarrow> MMatrix \<Rightarrow> real \<Rightarrow> scene" where
  "limb_scene blend_ctl root_world mid_world end_world blend =
     \<lparr>attrs = [blend_ctl @ ''.blend'' \<mapsto> blend, ''ikHandle.ikRoll'' \<mapsto> 30],
      poses =
        [''rig'' \<mapsto> (\<lambda>_. identity_matrix (MVector 0 0 0)),
         ''fk1'' \<mapsto> (\<lambda>_. root_world),
         ''fk2'' \<mapsto> (\<lambda>_. mid_world),
         ''fk3'' \<mapsto> (\<lambda>_. end_world),
         ''fk5'' \<mapsto> (\<lambda>_. identity_matrix (MVector 3 0 1)),
         ''ikm1'' \<mapsto> (\<lambda>a. if a (blend_ctl @ ''.blend'') = Some 0 then root_world
                            else identity_matrix (MVector 0 0 0)),
         ''ikm2'' \<mapsto> (\<lambda>a. if a (blend_ctl @ ''.blend'') = Some 0 then mid_world
                            else identity_matrix (MVector 0 3 4)),
         ''ikm3'' \<mapsto> (\<lambda>a. if a (blend_ctl @ ''.blend'') = Some 0 then end_world
                            else identity_matrix (MVector 0 6 8)),
         ''ikm6'' \<mapsto> (\<lambda>a. if a (blend_ctl @ ''.blend'') = Some 0
                            then identity_matrix (MVector 3 0 1)
                            else identity_matrix (MVector 0 6 9)),
         ''ikHandle'' \<mapsto> (\<lambda>_. identity_matrix (MVector 0 6 8)),
         ''ikPole'' \<mapsto> (\<lambda>_. identity_matrix (MVector 5 5 5)),
         ''ikBall'' \<mapsto> (\<lambda>_. identity_matrix (MVector 0 6 9))],
      parents =
        [''fk1'' \<mapsto> ''rig'', ''fk2'' \<mapsto> ''fk1'', ''fk3'' \<mapsto> ''fk2'', ''fk5'' \<mapsto> ''fk3'',
         ''ikm1'' \<mapsto> ''rig'', ''ikm2'' \<mapsto> ''ikm1'', ''ikm3'' \<mapsto> ''ikm2'', ''ikm6'' \<mapsto> ''ikm3'',
         ''ikHandle'' \<mapsto> ''rig'', ''ikPole'' \<mapsto> ''rig'', ''ikBall'' \<mapsto> ''ikHandle''],
      rotate = Map.empty,
      keys = [],
      log = []\<rparr>"

text \<open>The chain of the worked example: root (0,0,0), mid (1,0,0), end (2,1,0).\<close>

definition bent_limb :: "node \<Rightarrow> real \<Rightarrow> scene" where
  "bent_limb blend_ctl blend =
     limb_scene blend_ctl (identity_matrix (MVector 0 0 0)) (identity_matrix (MVector 1 0 0))
       (identity_matrix (MVector 2 1 0)) blend"

text \<open>
  A fully extended chain: root (0,0,0), mid (1,0,0), end (2,0,0); the mid control is
  rolled a quarter turn about the limb, so that its local Y axis points along world Z.
\<close>

definition straight_limb :: "node \<Rightarrow> real \<Rightarrow> scene" where
  "straight_limb blend_ctl blend =
     limb_scene blend_ctl (identity_matrix (MVector 0 0 0))
       (MMatrix (MVector 1 0 0) (MVector 0 0 1) (MVector 0 (- 1) 0) (MVector 1 0 0))
       (identity_matrix (MVector 2 0 0)) blend"

text \<open>A chain whose lower segment has length zero: root (0,0,0), mid and end (1,0,0).\<close>

definition short_limb :: "node \<Rightarrow> real \<Rightarrow> scene" where
  "short_limb blend_ctl blend =
     limb_scene blend_ctl (identity_matrix (MVector 0 0 0)) (identity_matrix (MVector 1 0 0))
       (identity_matrix (MVector 1 0 0)) blend"

text \<open>
  A chain that is nearly but not fully extended, in the plane y = 0: root (0,0,0), mid
  (952,0,0), end (1012,0,45); the segments have the lengths 952 and 75, and the end is at
  the distance 1013 from the root, so that the cosine is 1012/1013, more than 0.999.
\<close>

definition near_straight_limb :: "node \<Rightarrow> real \<Rightarrow> scene" where
  "near_straight_limb blend_ctl blend =
     limb_scene blend_ctl (identity_matrix (MVector 0 0 0)) (identity_matrix (MVector 952 0 0))
       (identity_matrix (MVector 1012 0 45)) blend"


section \<open>Reasoning about commands\<close>

lemmas prim_defs =
  bindM_def returnM_def raiseM_def liftE_def py_index_def py_last_def read_local_def
  getAttr_def setAttr_def xform_q_translation_def xform_q_matrix_def xform_matrix_def
  move_abs_def move_rel_def rotate_set_zero_def duplicate_def listRelatives_def parent_def
  delete_def setKeyframe_def record_cmd_def world_def Let_def

lemma unused_name_fresh: "unused_name used base k = Some d \<Longrightarrow> \<not> used d"
  by (induction k arbitrary: base) (auto simp: Let_def split: if_splits)

lemma proxy_name_fresh: "proxy_name ps source = Some d \<Longrightarrow> ps d = None"
  unfolding proxy_name_def by (auto dest: unused_name_fresh)

lemma proxy_name_first:
  "ps (source @ ''1'') = None \<Longrightarrow> proxy_name ps source = Some (source @ ''1'')"
  unfolding proxy_name_def by (simp add: numeral_eq_Suc)

lemma upd_fresh: "m d = None \<Longrightarrow> d \<noteq> k \<Longrightarrow> (m(k \<mapsto> v))(d := None) = m(k \<mapsto> v)"
  by (rule ext) simp

subsection \<open>snap\<close>

lemma snap_ok_iff:
  "fst (snap source target attr value s) = Inr () \<longleftrightarrow> snap_ready s source target attr"
  unfolding snap_def snap_ready_def
  by (auto simp: prim_defs split: option.splits sum.splits prod.splits if_splits
        dest: proxy_name_fresh)

lemma snap_ok:
  assumes "snap_ready s source target attr"
  shows "snap source target attr value s = (Inr (), snap_result s source target attr value)"
proof -
  from assms obtain d q p par a0 where
    d: "proxy_name (poses s) source = Some d" and q: "poses s target = Some q"
    and p: "poses s source = Some p" and par: "parents s source = Some par"
    and a0: "attrs s attr = Some a0"
    unfolding snap_ready_def by auto
  from proxy_name_fresh [OF d] have fresh: "poses s d = None" by simp
  with p q have ne: "d \<noteq> source" "d \<noteq> target" "source \<noteq> d" "target \<noteq> d" by auto
  show ?thesis
    unfolding snap_def snap_trace_def snap_result_def
    by (simp add: prim_defs d q p par a0 fresh ne upd_fresh)
qed


lemma ready_fk1:
  "snap_ready (bent_limb ''armSettings'' 1) ''fk1'' ''ikm1'' ''armSettings.blend''"
  unfolding snap_ready_def bent_limb_def limb_scene_def
  by (simp add: proxy_name_first)

lemma ghost_run:
  "fst (snap ''fk1'' ''ghost'' ''armSettings.blend'' 0 (bent_limb ''armSettings'' 1)) \<noteq> Inr ()"
  "2 < length (issued (bent_limb ''armSettings'' 1)
         (snd (snap ''fk1'' ''ghost'' ''armSettings.blend'' 0 (bent_limb ''armSettings'' 1))))"
  unfolding snap_def bent_limb_def limb_scene_def issued_def
  by (simp_all add: prim_defs proxy_name_first)

subsection \<open>Sequencing\<close>

lemma bindM_cases:
  obtains (raise) e s' where "m s = (Inl e, s')" "bindM m f s = (Inl e, s')"
        | (return) a s' where "m s = (Inr a, s')" "bindM m f s = f a s'"
  by (cases "m s"; cases "fst (m s)") (auto simp: bindM_def)

lemma bindM_Inr: "m s = (Inr a, s') \<Longrightarrow> bindM m f s = f a s'"
  by (simp add: bindM_def)

lemma bindM_Inl: "m s = (Inl e, s') \<Longrightarrow> bindM m f s = (Inl e, s')"
  by (simp add: bindM_def)

text \<open>A sequence that returns normally: its first command did, and the rest did.\<close>

lemma bindM_returnsE:
  assumes "fst (bindM m f s) = Inr b"
  obtains a s' where "m s = (Inr a, s')" "fst (f a s') = Inr b"
  using assms by (cases rule: bindM_cases [of m s f]) auto

text \<open>
  Two sequences with the same first command: when the first returns normally, a property
  of the second follows from the rest.
\<close>

lemma bindM_both:
  assumes "fst (bindM m f s) = Inr b"
    and "\<And>a s'. m s = (Inr a, s') \<Longrightarrow> fst (f a s') = Inr b \<Longrightarrow> Q (g a s')"
  shows "Q (bindM m g s)"
  using assms by (cases rule: bindM_cases [of m s f]) (auto simp: bindM_Inr)

lemma preserves_bindM:
  assumes "preserves I m" "\<And>a. preserves I (f a)"
  shows "preserves I (bindM m f)"
  unfolding preserves_def
proof (intro allI impI)
  fix s assume I: "I s"
  show "I (snd (bindM m f s))"
  proof (cases rule: bindM_cases [of m s f])
    case (raise e s')
    with assms(1) I show ?thesis by (auto simp: preserves_def dest!: spec [of _ s])
  next
    case (return a s')
    with assms(1) I have "I s'" by (auto simp: preserves_def dest!: spec [of _ s])
    with assms(2) [of a] return show ?thesis by (auto simp: preserves_def)
  qed
qed

lemma preservesD: "preserves I m \<Longrightarrow> I s \<Longrightarrow> m s = (r, s') \<Longrightarrow> I s'"
  unfolding preserves_def by (metis snd_conv)

lemma preserves_conj:
  "preserves I m \<Longrightarrow> preserves J m \<Longrightarrow> preserves (\<lambda>s. I s \<and> J s) m"
  unfolding preserves_def by simp

lemma preserves_pure:
  "preserves I (returnM a)" "preserves I (raiseM e)" "preserves I (liftE r)"
  "preserves I (py_index xs i)" "preserves I (py_last xs)" "preserves I (read_local v)"
  by (auto simp: preserves_def returnM_def raiseM_def liftE_def py_index_def py_last_def
        read_local_def split: option.splits)

lemma preserves_if:
  "(c \<Longrightarrow> preserves I m) \<Longrightarrow> (\<not> c \<Longrightarrow> preserves I m') \<Longrightarrow> preserves I (if c then m else m')"
  by simp

lemma preserves_prod:
  "(\<And>a b. preserves I (f a b)) \<Longrightarrow> preserves I (case x of (a, b) \<Rightarrow> f a b)"
  by (cases x) simp

lemmas preserves_struct = preserves_bindM preserves_pure preserves_if preserves_prod

lemmas cmd_defs = getAttr_def setAttr_def xform_q_translation_def xform_q_matrix_def
  xform_matrix_def move_abs_def move_rel_def rotate_set_zero_def duplicate_def
  listRelatives_def parent_def delete_def setKeyframe_def record_cmd_def world_def Let_def

subsection \<open>What the host commands leave alone\<close>

lemma preserves_attrs:
  "preserves (\<lambda>s. P (attrs s)) (getAttr a)"
  "preserves (\<lambda>s. P (attrs s)) (xform_q_translation n)"
  "preserves (\<lambda>s. P (attrs s)) (xform_q_matrix n)"
  "preserves (\<lambda>s. P (attrs s)) (xform_matrix n m)"
  "preserves (\<lambda>s. P (attrs s)) (move_abs w n)"
  "preserves (\<lambda>s. P (attrs s)) (move_rel n w)"
  "preserves (\<lambda>s. P (attrs s)) (rotate_set_zero n)"
  "preserves (\<lambda>s. P (attrs s)) (duplicate n)"
  "preserves (\<lambda>s. P (attrs s)) (listRelatives n)"
  "preserves (\<lambda>s. P (attrs s)) (parent n n')"
  "preserves (\<lambda>s. P (attrs s)) (delete n)"
  "preserves (\<lambda>s. P (attrs s)) (setKeyframe ns)"
  by (auto simp: preserves_def cmd_defs split: option.splits)

lemma preserves_attr_setAttr:
  "a \<noteq> k \<Longrightarrow> preserves (\<lambda>s. P (attrs s k)) (setAttr a v)"
  by (auto simp: preserves_def cmd_defs split: option.splits)

lemmas preserves_attr = preserves_attrs [where P = "\<lambda>m. P (m k)" for P k]

lemma preserves_attr_snap:
  "a \<noteq> k \<Longrightarrow> preserves (\<lambda>s. P (attrs s k)) (snap source target a v)"
  unfolding snap_def
  by (intro preserves_struct preserves_attr_setAttr preserves_attr)

text \<open>The log only grows.\<close>

lemma preserves_log:
  "preserves (\<lambda>s. prefix L (log s)) (getAttr a)"
  "preserves (\<lambda>s. prefix L (log s)) (setAttr a v)"
  "preserves (\<lambda>s. prefix L (log s)) (xform_q_translation n)"
  "preserves (\<lambda>s. prefix L (log s)) (xform_q_matrix n)"
  "preserves (\<lambda>s. prefix L (log s)) (xform_matrix n m)"
  "preserves (\<lambda>s. prefix L (log s)) (move_abs w n)"
  "preserves (\<lambda>s. prefix L (log s)) (move_rel n w)"
  "preserves (\<lambda>s. prefix L (log s)) (rotate_set_zero n)"
  "preserves (\<lambda>s. prefix L (log s)) (duplicate n)"
  "preserves (\<lambda>s. prefix L (log s)) (listRelatives n)"
  "preserves (\<lambda>s. prefix L (log s)) (parent n n')"
  "preserves (\<lambda>s. prefix L (log s)) (delete n)"
  "preserves (\<lambda>s. prefix L (log s)) (setKeyframe ns)"
  by (auto simp: preserves_def cmd_defs split: option.splits)

lemma preserves_log_snap: "preserves (\<lambda>s. prefix L (log s)) (snap source target a v)"
  unfolding snap_def by (intro preserves_struct preserves_log)

lemma blend_roll_distinct: "h @ ''.ikRoll'' \<noteq> b @ ''.blend''"
proof
  assume "h @ ''.ikRoll'' = b @ ''.blend''"
  then have "last (h @ ''.ikRoll'') = last (b @ ''.blend'')" by simp
  then show False by simp
qed

text \<open>After the roll plug is reset, the rest of \<open>ik_to_fk\<close> keeps it and the log's start.\<close>

lemma ik_to_fk_rest_keeps:
  assumes "I = (\<lambda>s. attrs s (ik_handle @ ''.ikRoll'') = Some 0 \<and> prefix L (log s))"
  shows "preserves I
     (bindM (ik_to_fk_positions fk_list) (\<lambda>(fk_001_pos, fk_002_pos, fk_003_pos).
      bindM (ik_to_fk_handle ikm_list ik_handle blend_ctl ik_rotation fk_003_pos) (\<lambda>_.
      bindM (ik_to_fk_pole fk_list ik_pole fk_001_pos fk_002_pos fk_003_pos) (\<lambda>_.
      bindM (ik_to_fk_foot fk_list ik_ball blend_ctl) (\<lambda>ball_ik.
      bindM (setAttr (blend_ctl @ ''.blend'') blend_attr) (\<lambda>_.
      ik_to_fk_keys ik_handle ik_pole ball_ik key))))))"
  unfolding assms ik_to_fk_positions_def ik_to_fk_handle_def ik_to_fk_pole_def
    ik_to_fk_foot_def ik_to_fk_keys_def Let_def
  by (intro preserves_conj preserves_struct preserves_attr preserves_log
        preserves_attr_setAttr preserves_attr_snap preserves_log_snap
        blend_roll_distinct [symmetric])


lemma issued_prefix_take:
  "prefix (log s @ xs) (log s') \<Longrightarrow> take (length xs) (issued s s') = xs"
  by (auto simp: issued_def prefix_def)

text \<open>Existing nodes stay, whatever is not deleted.\<close>

lemma preserves_node:
  "preserves (\<lambda>s. poses s k \<noteq> None) (getAttr a)"
  "preserves (\<lambda>s. poses s k \<noteq> None) (setAttr a v)"
  "preserves (\<lambda>s. poses s k \<noteq> None) (xform_q_translation n)"
  "preserves (\<lambda>s. poses s k \<noteq> None) (xform_q_matrix n)"
  "preserves (\<lambda>s. poses s k \<noteq> None) (xform_matrix n m)"
  "preserves (\<lambda>s. poses s k \<noteq> None) (move_abs w n)"
  "preserves (\<lambda>s. poses s k \<noteq> None) (move_rel n w)"
  "preserves (\<lambda>s. poses s k \<noteq> None) (rotate_set_zero n)"
  "preserves (\<lambda>s. poses s k \<noteq> None) (duplicate n)"
  "preserves (\<lambda>s. poses s k \<noteq> None) (listRelatives n)"
  "preserves (\<lambda>s. poses s k \<noteq> None) (parent n n')"
  "preserves (\<lambda>s. poses s k \<noteq> None) (setKeyframe ns)"
  by (auto simp: preserves_def cmd_defs split: option.splits)

lemma preserves_node_snap: "preserves (\<lambda>s. poses s k \<noteq> None) (snap source target a v)"
  unfolding preserves_def
proof (intro allI impI)
  fix s :: scene assume k: "poses s k \<noteq> None"
  show "poses (snd (snap source target a v s)) k \<noteq> None"
  proof (cases "snap_ready s source target a")
    case True
    with k show ?thesis by (simp add: snap_ok snap_result_def Let_def)
  next
    case False
    with k show ?thesis
      unfolding snap_def snap_ready_def
      by (auto simp: prim_defs split: option.splits sum.splits prod.splits if_splits
          dest: proxy_name_fresh)
  qed
qed


lemma bindM_fst_Inr_iff:
  "fst (bindM m f s) = Inr b \<longleftrightarrow> (\<exists>a s'. m s = (Inr a, s') \<and> fst (f a s') = Inr b)"
  by (cases rule: bindM_cases [of m s f]) auto

lemma both_fst:
  assumes "fst (bindM m f s) = Inr b"
    and "\<And>a s'. m s = (Inr a, s') \<Longrightarrow> fst (f a s') = Inr b \<Longrightarrow> fst (g a s') = r"
  shows "fst (bindM m g s) = r"
  using assms by (rule bindM_both)

lemma both_attr:
  assumes "fst (bindM m f s) = Inr b"
    and "\<And>a s'. m s = (Inr a, s') \<Longrightarrow> fst (f a s') = Inr b \<Longrightarrow> attrs (snd (g a s')) k = v"
  shows "attrs (snd (bindM m g s)) k = v"
  using assms by (rule bindM_both)

lemma foot_arm:
  "\<not> is_leg blend_ctl \<Longrightarrow> ik_to_fk_foot fk_list ik_ball blend_ctl = returnM None"
  "\<not> is_leg blend_ctl \<Longrightarrow> fk_to_ik_foot fk_list ikm_list blend_ctl = returnM None"
  by (simp_all add: ik_to_fk_foot_def fk_to_ik_foot_def)

lemma keys_unbound:
  "fst (ik_to_fk_keys ik_handle ik_pole None True s) \<noteq> Inr ()"
  "fst (fk_to_ik_keys fk_list None True s) \<noteq> Inr ()"
  by (auto simp: ik_to_fk_keys_def fk_to_ik_keys_def prim_defs split: if_splits)

lemma keys_unbound_reached:
  "poses s ik_handle \<noteq> None \<Longrightarrow> poses s ik_pole \<noteq> None \<Longrightarrow>
     fst (ik_to_fk_keys ik_handle ik_pole None True s) = Inl UnboundLocalError"
  "list_all (\<lambda>n. poses s n \<noteq> None) fk_list \<Longrightarrow>
     fst (fk_to_ik_keys fk_list None True s) = Inl UnboundLocalError"
  by (auto simp: ik_to_fk_keys_def fk_to_ik_keys_def prim_defs split: if_splits)

lemma ik_to_fk_handle_node:
  assumes "ik_to_fk_handle ikm_list ik_handle blend_ctl ik_rotation fk_003_pos s = (Inr u, s')"
  shows "poses s' ik_handle \<noteq> None"
proof (cases ik_rotation)
  case True
  with assms have run: "bindM (py_index ikm_list 2)
      (\<lambda>ikm_003. snap ik_handle ikm_003 (blend_ctl @ ''.blend'') 1) s = (Inr u, s')"
    by (simp add: ik_to_fk_handle_def)
  then have "fst (bindM (py_index ikm_list 2)
      (\<lambda>ikm_003. snap ik_handle ikm_003 (blend_ctl @ ''.blend'') 1) s) = Inr ()" by simp
  then obtain t where t: "snap ik_handle t (blend_ctl @ ''.blend'') 1 s = (Inr u, s')"
    using run by (auto simp: bindM_def py_index_def returnM_def raiseM_def split: if_splits)
  then have "snap_ready s ik_handle t (blend_ctl @ ''.blend'')"
    using snap_ok_iff [of ik_handle t "blend_ctl @ ''.blend''" 1 s] by simp
  from snap_ok [OF this, of 1] t show ?thesis by (simp add: snap_result_def Let_def)
next
  case False
  with assms show ?thesis
    by (auto simp: ik_to_fk_handle_def move_abs_def record_cmd_def Let_def split: option.splits)
qed

lemma preserves_node_pole:
  "preserves (\<lambda>s. poses s k \<noteq> None) (ik_to_fk_pole fk_list ik_pole p1 p2 p3)"
  unfolding ik_to_fk_pole_def by (intro preserves_struct preserves_node)

lemma ik_to_fk_pole_node:
  assumes "ik_to_fk_pole fk_list ik_pole p1 p2 p3 s = (Inr u, s')"
  shows "poses s' ik_pole \<noteq> None"
  using assms unfolding ik_to_fk_pole_def
  by (auto simp: prim_defs split: option.splits sum.splits prod.splits if_splits)

lemma preserves_node_joint:
  "preserves (\<lambda>s. poses s k \<noteq> None) (fk_to_ik_joint fk_list ikm_list blend_ctl i)"
  unfolding fk_to_ik_joint_def by (intro preserves_struct preserves_node_snap)


lemma preserves_attrs_keys:
  "preserves (\<lambda>s. P (attrs s)) (ik_to_fk_keys ik_handle ik_pole ball key)"
  "preserves (\<lambda>s. P (attrs s)) (fk_to_ik_keys fk_list ball key)"
  unfolding ik_to_fk_keys_def fk_to_ik_keys_def
  by (intro preserves_struct preserves_attrs)+

lemma setAttr_returns:
  "setAttr a v s = (Inr u, s') \<Longrightarrow> attrs s' a = Some v \<and> poses s' = poses s"
  by (auto simp: setAttr_def record_cmd_def Let_def split: option.splits)

lemma getAttr_returns:
  "getAttr a s = (Inr v, s') \<Longrightarrow> attrs s a = Some v"
  by (auto simp: getAttr_def record_cmd_def Let_def split: option.splits)

lemma restore_then_keys:
  assumes "setAttr a v s = (Inr u, s')" "preserves (\<lambda>s. attrs s a = Some v) m"
  shows "attrs (snd (m s')) a = Some v"
  using assms setAttr_returns [OF assms(1)] by (simp add: preserves_def)

lemma ik_to_fk_restores:
  "fst (ik_to_fk fk_list ikm_list ik_handle ik_pole ik_offset ik_ball blend_ctl ik_rotation
           False s) = Inr () \<Longrightarrow>
   attrs (snd (ik_to_fk fk_list ikm_list ik_handle ik_pole ik_offset ik_ball blend_ctl
                 ik_rotation key s)) (blend_ctl @ ''.blend'') = attrs s (blend_ctl @ ''.blend'')"
  unfolding ik_to_fk_def
  apply (erule both_attr)
  apply (drule getAttr_returns)
  apply (erule both_attr)
  apply (erule both_attr)
  apply (clarsimp simp del: fun_upd_apply)
  apply (erule both_attr)
  apply (erule both_attr)
  apply (erule both_attr)
  apply (erule both_attr)
  apply (erule restore_then_keys)
  apply (rule preserves_attrs_keys [where P = "\<lambda>m. m (blend_ctl @ ''.blend'') = Some v" for v])
  done

lemma fk_to_ik_restores:
  "fst (fk_to_ik fk_list fk_offset_list ikm_list ik_ball blend_ctl False s) = Inr () \<Longrightarrow>
   attrs (snd (fk_to_ik fk_list fk_offset_list ikm_list ik_ball blend_ctl key s))
     (blend_ctl @ ''.blend'') = attrs s (blend_ctl @ ''.blend'')"
  unfolding fk_to_ik_def
  apply (erule both_attr)
  apply (drule getAttr_returns)
  apply (erule both_attr)
  apply (erule both_attr)
  apply (erule both_attr)
  apply (erule both_attr)
  apply (erule both_attr)
  apply (simp del: fun_upd_apply)
  apply (erule restore_then_keys)
  apply (rule preserves_attrs_keys [where P = "\<lambda>m. m (blend_ctl @ ''.blend'') = Some v" for v])
  done

lemma preserves_all:
  "(\<And>k. preserves (\<lambda>s. P s k) m) \<Longrightarrow> preserves (\<lambda>s. list_all (P s) ks) m"
  unfolding preserves_def list_all_iff by blast

lemma keeps_nodes:
  assumes "m s = (r, s')" "list_all (\<lambda>n. poses s n \<noteq> None) ks"
    and "\<And>k. preserves (\<lambda>s. poses s k \<noteq> None) m"
  shows "list_all (\<lambda>n. poses s' n \<noteq> None) ks"
  using preservesD [OF preserves_all [of "\<lambda>s n. poses s n \<noteq> None" m ks], OF assms(3) assms(2) assms(1)] .

lemma pole_nodes:
  assumes "ik_to_fk_pole fk_list ik_pole p1 p2 p3 s = (Inr u, s')" "poses s h \<noteq> None"
  shows "poses s' h \<noteq> None \<and> poses s' ik_pole \<noteq> None"
  using ik_to_fk_pole_node [OF assms(1)] preservesD [OF preserves_node_pole assms(2) assms(1)]
  by simp

lemma ik_to_fk_arm_never:
  "\<not> is_leg blend_ctl \<Longrightarrow>
   fst (ik_to_fk fk_list ikm_list ik_handle ik_pole ik_offset ik_ball blend_ctl ik_rotation
          True s) \<noteq> Inr ()"
  unfolding ik_to_fk_def
  by (auto simp: bindM_fst_Inr_iff foot_arm returnM_def keys_unbound split: prod.splits)

lemma fk_to_ik_arm_never:
  "\<not> is_leg blend_ctl \<Longrightarrow>
   fst (fk_to_ik fk_list fk_offset_list ikm_list ik_ball blend_ctl True s) \<noteq> Inr ()"
  unfolding fk_to_ik_def
  by (auto simp: bindM_fst_Inr_iff foot_arm returnM_def keys_unbound split: prod.splits)

lemma ik_to_fk_arm_unbound:
  "\<not> is_leg blend_ctl \<Longrightarrow>
   fst (ik_to_fk fk_list ikm_list ik_handle ik_pole ik_offset ik_ball blend_ctl ik_rotation
          False s) = Inr () \<Longrightarrow>
   fst (ik_to_fk fk_list ikm_list ik_handle ik_pole ik_offset ik_ball blend_ctl ik_rotation
          True s) = Inl UnboundLocalError"
  unfolding ik_to_fk_def
  apply (erule both_fst)
  apply (erule both_fst)
  apply (erule both_fst)
  apply (clarsimp simp del: fun_upd_apply)
  apply (erule both_fst)
  apply (erule both_fst)
  apply (erule both_fst)
  apply (erule both_fst)
  apply (clarsimp simp add: foot_arm returnM_def simp del: fun_upd_apply)
  apply (drule ik_to_fk_handle_node)
  apply (drule (1) pole_nodes)
  apply (drule setAttr_returns [where a = "blend_ctl @ ''.blend''"])
  apply (simp add: keys_unbound_reached)
  done

lemma fk_to_ik_arm_unbound:
  "\<not> is_leg blend_ctl \<Longrightarrow> list_all (\<lambda>n. poses s n \<noteq> None) fk_list \<Longrightarrow>
   fst (fk_to_ik fk_list fk_offset_list ikm_list ik_ball blend_ctl False s) = Inr () \<Longrightarrow>
   fst (fk_to_ik fk_list fk_offset_list ikm_list ik_ball blend_ctl True s) = Inl UnboundLocalError"
  unfolding fk_to_ik_def
  apply (erule both_fst)
  apply (drule (1) keeps_nodes, rule preserves_node)
  apply (erule both_fst)
  apply (drule (1) keeps_nodes, rule preserves_node_joint)
  apply (erule both_fst)
  apply (drule (1) keeps_nodes, rule preserves_node_joint)
  apply (erule both_fst)
  apply (drule (1) keeps_nodes, rule preserves_node_joint)
  apply (erule both_fst)
  apply (erule both_fst)
  apply (clarsimp simp add: foot_arm returnM_def simp del: fun_upd_apply)
  apply (drule setAttr_returns [where a = "blend_ctl @ ''.blend''"])
  apply (simp add: keys_unbound_reached list_all_iff)
  done


subsection \<open>Runs on the rig\<close>

lemmas run_defs = ik_to_fk_def fk_to_ik_def ik_to_fk_positions_def ik_to_fk_handle_def
  ik_to_fk_lengths_def ik_to_fk_pole_y_def ik_to_fk_pole_def ik_to_fk_foot_def
  ik_to_fk_keys_def fk_to_ik_foot_def fk_to_ik_keys_def fk_to_ik_joint_def snap_def
  straight_limb_def limb_scene_def identity_matrix_def is_leg_def truthy_def
  vdiv_def normal_def vlength_def vdot_def vscale_def vtimes_def plus_MVector_def
  minus_MVector_def parent_axes_def identity_axes_def

lemma arm_ik_to_fk_runs:
  "fst (ik_to_fk [''fk1'', ''fk2'', ''fk3''] [''ikm1'', ''ikm2'', ''ikm3''] ''ikHandle''
          ''ikPole'' ''ikOffset'' ''ikBall'' ''armSettings'' True False
          (straight_limb ''armSettings'' 1)) = Inr ()"
  by (simp add: run_defs prim_defs proxy_name_first)

lemma arm_fk_to_ik_runs:
  "fst (fk_to_ik [''fk1'', ''fk2'', ''fk3''] [] [''ikm1'', ''ikm2'', ''ikm3''] ''ikBall''
          ''armSettings'' False (straight_limb ''armSettings'' 1)) = Inr ()"
  by (simp add: run_defs prim_defs proxy_name_first)

lemma arm_nodes:
  "set [''fk1'', ''fk2'', ''fk3''] \<subseteq> nodes (straight_limb ''armSettings'' 1)"
  by (simp add: nodes_def straight_limb_def limb_scene_def)

lemma arm_not_leg: "\<not> is_leg ''armSettings''"
  by (simp add: is_leg_def sublist_code)

lemma leg_is_leg: "is_leg ''legSettings''"
  by (simp add: is_leg_def sublist_code)

subsection \<open>Tallying the transfers\<close>

lemma tally_append: "tally (xs @ ys) = tplus (tally xs) (tally ys)"
  by (simp add: tally_def tplus_def)

lemma logs_issued: "logs m s T \<Longrightarrow> tally (issued s (snd (m s))) = T"
  by (auto simp: logs_def issued_def)

lemma both_tally:
  assumes major: "fst (bindM m f s) = Inr b"
    and step: "\<And>a s'. m s = (Inr a, s') \<Longrightarrow> logs m s T1"
    and rest: "\<And>a s'. m s = (Inr a, s') \<Longrightarrow> fst (f a s') = Inr b \<Longrightarrow> logs (g a) s' T2"
    and eq: "T = tplus T1 T2"
  shows "logs (bindM m g) s T"
proof -
  from major obtain a s' where run: "m s = (Inr a, s')" and ok: "fst (f a s') = Inr b"
    by (rule bindM_returnsE)
  from step [OF run] run obtain xs where xs: "log s' = log s @ xs" "tally xs = T1"
    by (auto simp: logs_def)
  from rest [OF run ok] obtain ys where ys: "log (snd (g a s')) = log s' @ ys" "tally ys = T2"
    by (auto simp: logs_def)
  have "log (snd (bindM m g s)) = log s @ (xs @ ys)"
    by (simp add: bindM_Inr [where m = m, OF run] xs ys)
  moreover have "tally (xs @ ys) = T" by (simp add: tally_append xs ys eq)
  ultimately show ?thesis unfolding logs_def by blast
qed

lemma getAttr_logs: "getAttr a s = (Inr v, s') \<Longrightarrow> logs (getAttr a) s ([], [], [])"
  by (auto simp: logs_def getAttr_def record_cmd_def Let_def tally_def split: option.splits)

lemma setAttr_logs: "setAttr a v s = (Inr u, s') \<Longrightarrow> logs (setAttr a v) s ([], [], [])"
  by (auto simp: logs_def setAttr_def record_cmd_def Let_def tally_def split: option.splits)

lemma snap_logs:
  assumes "snap source target a v s = (Inr u, s')"
  shows "logs (snap source target a v) s ([source], [source], [])"
proof -
  from assms have "snap_ready s source target a"
    using snap_ok_iff [of source target a v s] by simp
  from snap_ok [OF this, of v] show ?thesis
    by (simp add: logs_def snap_result_def Let_def snap_trace_def tally_def)
qed

lemma positions_logs:
  "ik_to_fk_positions fk_list s = (Inr p, s') \<Longrightarrow>
   logs (ik_to_fk_positions fk_list) s ([], [], [])"
  unfolding ik_to_fk_positions_def logs_def
  by (auto simp: prim_defs tally_def split: option.splits if_splits)

lemma handle_logs:
  assumes "ik_to_fk_handle ikm_list ik_handle blend_ctl ik_rotation pos s = (Inr u, s')"
  shows "logs (ik_to_fk_handle ikm_list ik_handle blend_ctl ik_rotation pos) s
           (if ik_rotation then [ik_handle] else [], if ik_rotation then [ik_handle] else [], [])"
proof (cases ik_rotation)
  case True
  with assms have run: "ik_to_fk_handle ikm_list ik_handle blend_ctl True pos s = (Inr u, s')"
    by simp
  then have len: "2 < length ikm_list"
    by (auto simp: ik_to_fk_handle_def bindM_def py_index_def returnM_def raiseM_def
          split: if_splits)
  then have eq: "ik_to_fk_handle ikm_list ik_handle blend_ctl True pos =
      snap ik_handle (ikm_list ! 2) (blend_ctl @ ''.blend'') 1"
    by (auto simp: ik_to_fk_handle_def bindM_def py_index_def returnM_def)
  from run snap_logs [of ik_handle "ikm_list ! 2" "blend_ctl @ ''.blend''" 1 s u s']
  show ?thesis by (simp add: True eq)
next
  case False
  with assms show ?thesis
    by (auto simp: logs_def ik_to_fk_handle_def move_abs_def record_cmd_def Let_def tally_def
          split: option.splits)
qed

lemma pole_logs:
  "ik_to_fk_pole fk_list ik_pole p1 p2 p3 s = (Inr u, s') \<Longrightarrow>
   logs (ik_to_fk_pole fk_list ik_pole p1 p2 p3) s ([], [ik_pole], [ik_pole])"
  unfolding ik_to_fk_pole_def logs_def
  by (auto simp: prim_defs tally_def split: option.splits sum.splits prod.splits if_splits)

lemma ik_foot_logs:
  "ik_to_fk_foot fk_list ik_ball blend_ctl s = (Inr b, s') \<Longrightarrow>
   logs (ik_to_fk_foot fk_list ik_ball blend_ctl) s
     ([], if is_leg blend_ctl then [ik_ball] else [], [])"
  unfolding ik_to_fk_foot_def logs_def
  by (auto simp: prim_defs tally_def split: option.splits sum.splits prod.splits if_splits)

lemma joint_logs:
  assumes "fk_to_ik_joint fk_list ikm_list blend_ctl i s = (Inr u, s')"
  shows "logs (fk_to_ik_joint fk_list ikm_list blend_ctl i) s ([fk_list ! i], [fk_list ! i], [])"
proof -
  from assms have len: "i < length fk_list" "i < length ikm_list"
    by (auto simp: fk_to_ik_joint_def bindM_def py_index_def returnM_def raiseM_def
          split: if_splits)
  then have eq: "fk_to_ik_joint fk_list ikm_list blend_ctl i =
      snap (fk_list ! i) (ikm_list ! i) (blend_ctl @ ''.blend'') 0"
    by (auto simp: fk_to_ik_joint_def bindM_def py_index_def returnM_def)
  from assms snap_logs [of "fk_list ! i" "ikm_list ! i" "blend_ctl @ ''.blend''" 0 s u s']
  show ?thesis by (simp add: eq)
qed

lemma joint_length:
  "fk_to_ik_joint fk_list ikm_list blend_ctl i s = (Inr u, s') \<Longrightarrow> i < length fk_list"
  by (auto simp: fk_to_ik_joint_def bindM_def py_index_def returnM_def raiseM_def
        split: if_splits)

lemma fk_foot_logs:
  assumes "fk_to_ik_foot fk_list ikm_list blend_ctl s = (Inr b, s')"
  shows "logs (fk_to_ik_foot fk_list ikm_list blend_ctl) s
     (if is_leg blend_ctl then [last fk_list] else [],
      if is_leg blend_ctl then [last fk_list] else [], [])"
proof (cases "is_leg blend_ctl")
  case True
  with assms have ne: "fk_list \<noteq> []" "ikm_list \<noteq> []"
    by (auto simp: fk_to_ik_foot_def bindM_def py_last_def returnM_def raiseM_def
          split: if_splits)
  let ?snap = "snap (last fk_list) (last ikm_list) (blend_ctl @ ''.blend'') 0"
  from True ne assms obtain u where run: "?snap s = (Inr u, s')"
    by (auto simp: fk_to_ik_foot_def bindM_def py_last_def returnM_def raiseM_def
          split: if_splits prod.splits sum.splits)
  from True ne have "snd (fk_to_ik_foot fk_list ikm_list blend_ctl s) = snd (?snap s)"
    by (auto simp: fk_to_ik_foot_def bindM_def py_last_def returnM_def raiseM_def
          split: if_splits prod.splits sum.splits)
  with snap_logs [OF run] True show ?thesis by (simp add: logs_def)
next
  case False
  then show ?thesis by (simp add: foot_arm returnM_def logs_def tally_def)
qed

lemma keys_logs:
  "logs (ik_to_fk_keys ik_handle ik_pole ball key) s ([], [], [])"
  "logs (fk_to_ik_keys fk_list ball key) s ([], [], [])"
  unfolding ik_to_fk_keys_def fk_to_ik_keys_def logs_def
  by (auto simp: prim_defs tally_def split: option.splits sum.splits prod.splits if_splits)

lemma ik_to_fk_logs:
  "fst (ik_to_fk fk_list ikm_list ik_handle ik_pole ik_offset ik_ball blend_ctl ik_rotation
          False s) = Inr () \<Longrightarrow>
   logs (ik_to_fk fk_list ikm_list ik_handle ik_pole ik_offset ik_ball blend_ctl ik_rotation key) s
     (if ik_rotation then [ik_handle] else [],
      (if ik_rotation then [ik_handle] else []) @ [ik_pole] @
        (if is_leg blend_ctl then [ik_ball] else []),
      [ik_pole])"
  unfolding ik_to_fk_def
  apply (erule both_tally, erule getAttr_logs)
   apply (erule both_tally, erule setAttr_logs)
    apply (erule both_tally, erule positions_logs)
     apply (simp only: split_paired_all prod.case)
     apply (erule both_tally, erule handle_logs)
      apply (erule both_tally, erule pole_logs)
       apply (erule both_tally, erule ik_foot_logs)
        apply (erule both_tally, erule setAttr_logs)
         apply (rule keys_logs)
        apply (rule refl)
       apply (rule refl)
      apply (rule refl)
     apply (rule refl)
    apply (rule refl)
   apply (rule refl)
  apply (simp add: tplus_def)
  done

lemma fk_to_ik_logs:
  "fst (fk_to_ik fk_list fk_offset_list ikm_list ik_ball blend_ctl False s) = Inr () \<Longrightarrow>
   logs (fk_to_ik fk_list fk_offset_list ikm_list ik_ball blend_ctl key) s
     ([fk_list ! 0, fk_list ! 1, fk_list ! 2] @ (if is_leg blend_ctl then [last fk_list] else []),
      [fk_list ! 0, fk_list ! 1, fk_list ! 2] @ (if is_leg blend_ctl then [last fk_list] else []),
      [])"
  unfolding fk_to_ik_def
  apply (erule both_tally, erule getAttr_logs)
   apply (erule both_tally, erule joint_logs)
    apply (erule both_tally, erule joint_logs)
     apply (erule both_tally, erule joint_logs)
      apply (erule both_tally, erule fk_foot_logs)
       apply (erule both_tally, erule setAttr_logs)
        apply (rule keys_logs)
       apply (rule refl)
      apply (rule refl)
     apply (rule refl)
    apply (rule refl)
   apply (rule refl)
  apply (simp add: tplus_def)
  done

lemma fk_to_ik_length:
  "fst (fk_to_ik fk_list fk_offset_list ikm_list ik_ball blend_ctl False s) = Inr () \<Longrightarrow>
   2 < length fk_list"
  unfolding fk_to_ik_def
  by (auto simp: bindM_fst_Inr_iff dest: joint_length)

lemma take3: "2 < length xs \<Longrightarrow> take 3 xs = [xs ! 0, xs ! 1, xs ! 2]"
proof -
  assume "2 < length xs"
  then obtain a b c ys where "xs = a # b # c # ys"
    by (cases xs; cases "tl xs"; cases "tl (tl xs)") auto
  then show ?thesis by (simp add: numeral_3_eq_3 numeral_2_eq_2)
qed

lemma leg_ik_to_fk_runs:
  "fst (ik_to_fk [''fk1'', ''fk2'', ''fk3'', ''fk5''] [''ikm1'', ''ikm2'', ''ikm3'', ''ikm6'']
          ''ikHandle'' ''ikPole'' ''ikOffset'' ''ikBall'' ''legSettings'' True False
          (straight_limb ''legSettings'' 1)) = Inr ()"
  by (simp add: run_defs prim_defs proxy_name_first sublist_code)

lemma leg_fk_to_ik_runs:
  "fst (fk_to_ik [''fk1'', ''fk2'', ''fk3'', ''fk5''] [] [''ikm1'', ''ikm2'', ''ikm3'', ''ikm6'']
          ''ikBall'' ''legSettings'' False (straight_limb ''legSettings'' 1)) = Inr ()"
  by (simp add: run_defs prim_defs proxy_name_first sublist_code)

subsection \<open>Vector algebra\<close>

lemma MVector_eq_iff: "a = b \<longleftrightarrow> vx a = vx b \<and> vy a = vy b \<and> vz a = vz b"
  by (cases a; cases b) auto

lemma vec_simps [simp]:
  "vx (a + b) = vx a + vx b" "vy (a + b) = vy a + vy b" "vz (a + b) = vz a + vz b"
  "vx (a - b) = vx a - vx b" "vy (a - b) = vy a - vy b" "vz (a - b) = vz a - vz b"
  "vx (vscale a k) = vx a * k" "vy (vscale a k) = vy a * k" "vz (vscale a k) = vz a * k"
  by (simp_all add: plus_MVector_def minus_MVector_def vscale_def)


lemma vlength_sq: "vlength v * vlength v = vdot v v"
  by (simp add: vlength_def vdot_def)

lemma vlength_zero_iff: "vlength v = 0 \<longleftrightarrow> vx v = 0 \<and> vy v = 0 \<and> vz v = 0"
  by (auto simp: vlength_def add_nonneg_eq_0_iff)

lemma vlength_diff_zero_iff: "vlength (a - b) = 0 \<longleftrightarrow> a = b"
  by (auto simp: vlength_zero_iff MVector_eq_iff)


lemma vdot_unit: "vlength v \<noteq> 0 \<Longrightarrow> vdot (unit v) (unit v) = 1"
proof -
  assume nz: "vlength v \<noteq> 0"
  have "vdot (unit v) (unit v) = vdot v v / (vlength v * vlength v)"
    by (simp add: unit_def vdot_def add_divide_distrib)
  with nz show ?thesis by (simp add: vlength_sq [symmetric])
qed



lemma normal_unit: "vlength v \<noteq> 0 \<Longrightarrow> normal v = Inr (unit v)"
  by (simp add: normal_def vdiv_def unit_def)

lemma vdiv_unit: "vlength v \<noteq> 0 \<Longrightarrow> vdiv v (vlength v) = Inr (unit v)"
  by (simp add: vdiv_def unit_def)

lemma normal_zero: "vlength v = 0 \<Longrightarrow> normal v = Inl ZeroLength"
  by (simp add: normal_def vdiv_def)





subsection \<open>The pole computation\<close>

lemma lengths_ok:
  assumes "rootPos \<noteq> midPos" "rootPos \<noteq> endPos"
  shows "ik_to_fk_lengths rootPos midPos endPos =
     Inr (vlength (midPos - rootPos), total_length rootPos midPos endPos,
          unit (endPos - rootPos), unit (midPos - rootPos))"
proof -
  from assms have "vlength (midPos - rootPos) \<noteq> 0" "vlength (endPos - rootPos) \<noteq> 0"
    by (auto simp: vlength_diff_zero_iff)
  then show ?thesis
    by (simp add: ik_to_fk_lengths_def Let_def normal_unit vdiv_unit total_length_def)
qed

lemma pole_y_general:
  assumes "cos_angle rootPos midPos endPos \<le> 0.998"
    and "vlength (midPos - goal_projection rootPos midPos endPos) \<noteq> 0"
  shows "ik_to_fk_pole_y rootPos midPos (vlength (midPos - rootPos)) (unit (endPos - rootPos))
           (unit (midPos - rootPos)) mid_world =
         Inr (unit (midPos - goal_projection rootPos midPos endPos))"
  using assms
  by (simp add: ik_to_fk_pole_y_def Let_def cos_angle_def [symmetric]
        goal_projection_def [symmetric] normal_unit)


text \<open>The offset of the mid joint from its projection, and its length.\<close>

lemma vdot_unit_left: "vdot (unit a) b = vdot a b / vlength a"
  by (simp add: vdot_def unit_def add_divide_distrib)

lemma vscale_vscale: "vscale (vscale a k) j = vscale a (k * j)"
  by (simp add: MVector_eq_iff)

lemma diff_add_vec: "m - (r + x) = (m - r) - (x :: MVector)"
  by (simp add: MVector_eq_iff)

lemma offset_eq:
  assumes "vlength (midPos - rootPos) \<noteq> 0"
  shows "midPos - goal_projection rootPos midPos endPos =
     (midPos - rootPos) -
       vscale (unit (endPos - rootPos)) (vdot (midPos - rootPos) (unit (endPos - rootPos)))"
proof -
  from assms have "vlength (midPos - rootPos) * cos_angle rootPos midPos endPos =
      vdot (midPos - rootPos) (unit (endPos - rootPos))"
    by (simp add: cos_angle_def vdot_unit_left)
  then show ?thesis
    by (simp add: goal_projection_def vscale_vscale diff_add_vec)
qed

lemma offset_length_sq:
  assumes u: "vlength (midPos - rootPos) \<noteq> 0" and g: "vlength (endPos - rootPos) \<noteq> 0"
  shows "vdot (midPos - goal_projection rootPos midPos endPos)
              (midPos - goal_projection rootPos midPos endPos) =
         vdot (midPos - rootPos) (midPos - rootPos) *
           (1 - (cos_angle rootPos midPos endPos)\<^sup>2)"
proof -
  let ?u = "midPos - rootPos" and ?g = "unit (endPos - rootPos)"
  let ?k = "vdot ?u ?g"
  have gg: "vdot ?g ?g = 1" using g by (rule vdot_unit)
  have "vdot (?u - vscale ?g ?k) (?u - vscale ?g ?k) =
        vdot ?u ?u - 2 * ?k * ?k + ?k * ?k * vdot ?g ?g"
    by (simp add: vdot_def algebra_simps)
  also have "\<dots> = vdot ?u ?u - ?k * ?k" by (simp add: gg)
  finally have 1: "vdot (midPos - goal_projection rootPos midPos endPos)
              (midPos - goal_projection rootPos midPos endPos) = vdot ?u ?u - ?k * ?k"
    by (simp add: offset_eq [OF u])
  have "cos_angle rootPos midPos endPos = ?k / vlength ?u"
    by (simp add: cos_angle_def vdot_unit_left)
  then have "(cos_angle rootPos midPos endPos)\<^sup>2 = ?k * ?k / (vlength ?u * vlength ?u)"
    by (simp add: power2_eq_square)
  then have "vdot ?u ?u * (cos_angle rootPos midPos endPos)\<^sup>2 = ?k * ?k"
    using u by (simp add: vlength_sq [symmetric])
  with 1 show ?thesis by (simp add: algebra_simps)
qed

lemma offset_nonzero:
  assumes "rootPos \<noteq> midPos" "rootPos \<noteq> endPos"
    and "- 1 < cos_angle rootPos midPos endPos" "cos_angle rootPos midPos endPos \<le> 0.998"
  shows "vlength (midPos - goal_projection rootPos midPos endPos) \<noteq> 0"
proof
  let ?w = "midPos - goal_projection rootPos midPos endPos"
  let ?c = "cos_angle rootPos midPos endPos"
  assume "vlength ?w = 0"
  then have "vdot ?w ?w = 0" by (simp add: vlength_sq [symmetric])
  moreover from assms have u: "vlength (midPos - rootPos) \<noteq> 0"
    and g: "vlength (endPos - rootPos) \<noteq> 0"
    by (auto simp: vlength_diff_zero_iff)
  ultimately have "vdot (midPos - rootPos) (midPos - rootPos) * (1 - ?c\<^sup>2) = 0"
    by (simp add: offset_length_sq)
  moreover from u have "vdot (midPos - rootPos) (midPos - rootPos) \<noteq> 0"
    by (simp add: vlength_sq [symmetric])
  ultimately have "?c\<^sup>2 = 1" by simp
  then have "?c = 1 \<or> ?c = - 1" by (simp add: power2_eq_1_iff)
  with assms(3,4) show False by auto
qed





subsection \<open>Placing the pole\<close>

lemma preserves_pose:
  "preserves (\<lambda>s. poses s k = p0 \<and> rotate s k = r0) (getAttr a)"
  "preserves (\<lambda>s. poses s k = p0 \<and> rotate s k = r0) (setAttr a v)"
  "preserves (\<lambda>s. poses s k = p0 \<and> rotate s k = r0) (xform_q_translation n)"
  "preserves (\<lambda>s. poses s k = p0 \<and> rotate s k = r0) (xform_q_matrix n)"
  "preserves (\<lambda>s. poses s k = p0 \<and> rotate s k = r0) (setKeyframe ns)"
  "n \<noteq> k \<Longrightarrow> preserves (\<lambda>s. poses s k = p0 \<and> rotate s k = r0) (xform_matrix n m)"
  by (auto simp: preserves_def cmd_defs split: option.splits)

lemma rest_keeps_pole:
  assumes "is_leg blend_ctl \<longrightarrow> ik_ball \<noteq> ik_pole"
  shows "preserves (\<lambda>s. poses s ik_pole = p0 \<and> rotate s ik_pole = r0)
     (bindM (ik_to_fk_foot fk_list ik_ball blend_ctl) (\<lambda>ball_ik.
      bindM (setAttr b v) (\<lambda>_. ik_to_fk_keys ik_handle ik_pole ball_ik key)))"
  unfolding ik_to_fk_foot_def ik_to_fk_keys_def Let_def
  by (intro preserves_struct preserves_pose) (use assms in auto)

lemma pole_block:
  assumes "1 < length fk_list" "poses s (fk_list ! 1) = Some (\<lambda>_. mid_world)"
    and "poses s ik_pole \<noteq> None"
    and "ik_to_fk_lengths r m e = Inr (u, t, rgn, rmn)"
    and "ik_to_fk_pole_y r m u rgn rmn mid_world = Inr d"
  shows "fst (ik_to_fk_pole fk_list ik_pole r m e s) = Inr () \<and>
         pole_at ik_pole (translation mid_world + vscale d t)
           (snd (ik_to_fk_pole fk_list ik_pole r m e s))"
  using assms unfolding ik_to_fk_pole_def pole_at_def
  by (auto simp: prim_defs split: prod.splits)

lemma handle_step:
  assumes "if ik_rotation
           then 2 < length ikm_list \<and>
                snap_ready s ik_handle (ikm_list ! 2) (blend_ctl @ ''.blend'')
           else poses s ik_handle \<noteq> None"
  shows "fst (ik_to_fk_handle ikm_list ik_handle blend_ctl ik_rotation pos s) = Inr () \<and>
         (\<forall>k. k \<noteq> ik_handle \<longrightarrow>
            poses (snd (ik_to_fk_handle ikm_list ik_handle blend_ctl ik_rotation pos s)) k =
              poses s k) \<and>
         poses (snd (ik_to_fk_handle ikm_list ik_handle blend_ctl ik_rotation pos s)) ik_handle
           \<noteq> None"
proof (cases ik_rotation)
  case True
  with assms have len: "2 < length ikm_list"
    and ready: "snap_ready s ik_handle (ikm_list ! 2) (blend_ctl @ ''.blend'')" by simp_all
  from len have eq: "ik_to_fk_handle ikm_list ik_handle blend_ctl True pos =
      snap ik_handle (ikm_list ! 2) (blend_ctl @ ''.blend'') 1"
    by (auto simp: ik_to_fk_handle_def bindM_def py_index_def returnM_def)
  show ?thesis
    by (simp add: True eq snap_ok [OF ready] snap_result_def Let_def)
next
  case False
  with assms show ?thesis
    by (auto simp: ik_to_fk_handle_def move_abs_def record_cmd_def Let_def)
qed

lemma pole_at_position:
  "pole_at n p s \<Longrightarrow> position s n = Some p \<and> rotate s n = Some (MVector 0 0 0)"
  by (auto simp: pole_at_def position_def world_def)

lemma pole_placed:
  assumes ready: "limb_ready s fk_list ikm_list ik_handle ik_pole ik_ball blend_ctl ik_rotation
                    root_world mid_world end_world"
    and L: "ik_to_fk_lengths (translation root_world) (translation mid_world)
              (translation end_world) = Inr (u, t, rgn, rmn)"
    and Y: "ik_to_fk_pole_y (translation root_world) (translation mid_world) u rgn rmn
              mid_world = Inr d"
  shows "pole_at ik_pole (translation mid_world + vscale d t)
           (snd (ik_to_fk fk_list ikm_list ik_handle ik_pole ik_offset ik_ball blend_ctl
                   ik_rotation key s))"
proof -
  let ?b = "blend_ctl @ ''.blend''" and ?r = "ik_handle @ ''.ikRoll''"
  let ?X = "translation mid_world + vscale d t"
  from ready obtain v r0 where v: "attrs s ?b = Some v" and r0: "attrs s ?r = Some r0"
    and len: "2 < length fk_list"
    and p0: "poses s (fk_list ! 0) = Some (\<lambda>_. root_world)"
    and p1: "poses s (fk_list ! 1) = Some (\<lambda>_. mid_world)"
    and p2: "poses s (fk_list ! 2) = Some (\<lambda>_. end_world)"
    and h: "if ik_rotation
            then 2 < length ikm_list \<and> snap_ready s ik_handle (ikm_list ! 2) ?b
            else poses s ik_handle \<noteq> None"
    and ne: "ik_handle \<noteq> fk_list ! 1" and pole: "poses s ik_pole \<noteq> None"
    and ball: "is_leg blend_ctl \<longrightarrow> ik_ball \<noteq> ik_pole"
    unfolding limb_ready_def by auto
  define s1 where "s1 = s\<lparr>log := log s @ [GetAttr ?b]\<rparr>"
  define s2 where "s2 = s\<lparr>log := log s @ [GetAttr ?b, SetAttr ?r 0], attrs := (attrs s)(?r \<mapsto> 0)\<rparr>"
  define s3 where "s3 = s2\<lparr>log := log s2 @ [QueryTranslation (fk_list ! 0),
      QueryTranslation (fk_list ! 1), QueryTranslation (fk_list ! 2)]\<rparr>"
  let ?handle = "ik_to_fk_handle ikm_list ik_handle blend_ctl ik_rotation (translation end_world)"
  define s4 where "s4 = snd (?handle s3)"
  let ?pole = "ik_to_fk_pole fk_list ik_pole (translation root_world) (translation mid_world)
                 (translation end_world)"
  define s5 where "s5 = snd (?pole s4)"
  have get: "getAttr ?b s = (Inr v, s1)"
    by (simp add: getAttr_def record_cmd_def Let_def v s1_def)
  have set: "setAttr ?r 0 s1 = (Inr (), s2)"
    by (simp add: setAttr_def record_cmd_def Let_def r0 s1_def s2_def)
  have pos: "ik_to_fk_positions fk_list s2 =
      (Inr (translation root_world, translation mid_world, translation end_world), s3)"
    using len p1 by (auto simp: ik_to_fk_positions_def prim_defs p0 p2 s2_def s3_def)
  have same: "poses s3 = poses s" "parents s3 = parents s"
    by (simp_all add: s3_def s2_def)
  have "attrs s3 ?b = Some v"
    using blend_roll_distinct [of ik_handle blend_ctl] by (simp add: s3_def s2_def v)
  with h have "if ik_rotation
            then 2 < length ikm_list \<and> snap_ready s3 ik_handle (ikm_list ! 2) ?b
            else poses s3 ik_handle \<noteq> None"
    by (auto simp: snap_ready_def same split: if_splits)
  from handle_step [OF this, of "translation end_world"]
  have h_ok: "?handle s3 = (Inr (), s4)"
    and h_frame: "\<And>k. k \<noteq> ik_handle \<Longrightarrow> poses s4 k = poses s k"
    and h_node: "poses s4 ik_handle \<noteq> None"
    by (auto simp: s4_def same prod_eq_iff)
  have "poses s4 (fk_list ! 1) = Some (\<lambda>_. mid_world)"
    using ne h_frame [of "fk_list ! 1"] p1 by simp
  moreover have "poses s4 ik_pole \<noteq> None"
    using h_frame [of ik_pole] h_node pole by (cases "ik_pole = ik_handle") simp_all
  moreover from len have "1 < length fk_list" by simp
  ultimately have "fst (?pole s4) = Inr () \<and> pole_at ik_pole ?X s5"
    unfolding s5_def using L Y by (intro pole_block)
  then have p_ok: "?pole s4 = (Inr (), s5)" and at5: "pole_at ik_pole ?X s5"
    by (auto simp: s5_def prod_eq_iff)
  let ?rest = "bindM (ik_to_fk_foot fk_list ik_ball blend_ctl) (\<lambda>ball_ik.
      bindM (setAttr ?b v) (\<lambda>_. ik_to_fk_keys ik_handle ik_pole ball_ik key))"
  have run: "ik_to_fk fk_list ikm_list ik_handle ik_pole ik_offset ik_ball blend_ctl
                   ik_rotation key s = ?rest s5"
    unfolding ik_to_fk_def
    by (simp add: bindM_Inr [where m = "getAttr ?b" and s = s, OF get]
          bindM_Inr [where m = "setAttr ?r 0" and s = s1, OF set]
          bindM_Inr [where m = "ik_to_fk_positions fk_list" and s = s2, OF pos]
          bindM_Inr [where m = ?handle and s = s3, OF h_ok]
          bindM_Inr [where m = ?pole and s = s4, OF p_ok])
  from at5 obtain F where F: "poses s5 ik_pole = Some F" "\<forall>a. translation (F a) = ?X"
    and rot: "rotate s5 ik_pole = Some (MVector 0 0 0)"
    unfolding pole_at_def by auto
  from rest_keeps_pole [OF ball, of "Some F" "Some (MVector 0 0 0)" fk_list ?b v ik_handle key] F(1) rot
  have "poses (snd (?rest s5)) ik_pole = Some F \<and>
        rotate (snd (?rest s5)) ik_pole = Some (MVector 0 0 0)"
    by (simp add: preserves_def)
  with F(2) show ?thesis by (simp add: run pole_at_def)
qed

subsection \<open>The two branches, from the scene to the pole\<close>

lemma general_position:
  assumes ready: "limb_ready s fk_list ikm_list ik_handle ik_pole ik_ball blend_ctl ik_rotation
                    root_world mid_world end_world"
    and pos: "rootPos = translation root_world" "midPos = translation mid_world"
      "endPos = translation end_world"
    and nd: "rootPos \<noteq> midPos" "rootPos \<noteq> endPos"
    and c: "- 1 < cos_angle rootPos midPos endPos" "cos_angle rootPos midPos endPos \<le> 0.998"
  shows "pole_at ik_pole
           (midPos + vscale (unit (midPos - goal_projection rootPos midPos endPos))
                       (total_length rootPos midPos endPos))
           (snd (ik_to_fk fk_list ikm_list ik_handle ik_pole ik_offset ik_ball blend_ctl
                   ik_rotation key s))"
  using pole_placed [OF ready lengths_ok [OF nd [unfolded pos]]
      pole_y_general [OF c(2) [unfolded pos] offset_nonzero [OF nd c, unfolded pos]]]
  by (simp add: pos)


subsection \<open>The rigs\<close>

lemmas rig_defs = bent_limb_def straight_limb_def short_limb_def near_straight_limb_def
  limb_scene_def identity_matrix_def

lemma bent_ready:
  "limb_ready (bent_limb ''armSettings'' 1) [''fk1'', ''fk2'', ''fk3'']
     [''ikm1'', ''ikm2'', ''ikm3''] ''ikHandle'' ''ikPole'' ''ikBall'' ''armSettings'' True
     (identity_matrix (MVector 0 0 0)) (identity_matrix (MVector 1 0 0))
     (identity_matrix (MVector 2 1 0))"
  by (simp add: limb_ready_def snap_ready_def rig_defs proxy_name_first arm_not_leg)






lemma sqrt5_sq: "sqrt 5 * sqrt 5 = 5"
  by simp

lemma sqrt5_bounds: "11 / 5 \<le> sqrt 5" "0 < sqrt 5"
  by (rule real_le_rsqrt; simp add: power2_eq_square) simp

lemma bent_cos:
  "cos_angle (MVector 0 0 0) (MVector 1 0 0) (MVector 2 1 0) = 2 / sqrt 5"
  by (simp add: cos_angle_def unit_def vdot_def vlength_def minus_MVector_def)

lemma bent_cos_bounds:
  "- 1 < cos_angle (MVector 0 0 0) (MVector 1 0 0) (MVector 2 1 0)"
  "cos_angle (MVector 0 0 0) (MVector 1 0 0) (MVector 2 1 0) \<le> 0.998"
proof -
  show "- 1 < cos_angle (MVector 0 0 0) (MVector 1 0 0) (MVector 2 1 0)"
  proof -
    have "(0::real) \<le> 2 / sqrt 5" by simp
    then show ?thesis unfolding bent_cos by linarith
  qed
  have "2 / sqrt 5 \<le> 2 / (11 / 5)"
    using sqrt5_bounds by (intro divide_left_mono) simp_all
  then show "cos_angle (MVector 0 0 0) (MVector 1 0 0) (MVector 2 1 0) \<le> 0.998"
    unfolding bent_cos by simp
qed

lemma bent_cos_margin:
  "- 0.999 \<le> cos_angle (MVector 0 0 0) (MVector 1 0 0) (MVector 2 1 0)"
  "cos_angle (MVector 0 0 0) (MVector 1 0 0) (MVector 2 1 0) \<le> 0.997"
proof -
  show "- 0.999 \<le> cos_angle (MVector 0 0 0) (MVector 1 0 0) (MVector 2 1 0)"
    unfolding bent_cos by (rule order_trans [of _ 0]) simp_all
  have "2 / sqrt 5 \<le> 2 / (11 / 5)"
    using sqrt5_bounds by (intro divide_left_mono) simp_all
  then show "cos_angle (MVector 0 0 0) (MVector 1 0 0) (MVector 2 1 0) \<le> 0.997"
    unfolding bent_cos by simp
qed

lemma bent_projection:
  "goal_projection (MVector 0 0 0) (MVector 1 0 0) (MVector 2 1 0) = MVector (4 / 5) (2 / 5) 0"
  unfolding goal_projection_def bent_cos
  by (simp add: unit_def vlength_def minus_MVector_def plus_MVector_def vscale_def)





lemma rig_translations:
  "translation (identity_matrix p) = p"
  "MVector 1 0 0 =
     translation (MMatrix (MVector 1 0 0) (MVector 0 0 1) (MVector 0 (- 1) 0) (MVector 1 0 0))"
  by (simp_all add: identity_matrix_def)


section \<open>The claims\<close>



text \<open>
  C3, as the code has it.  A call of \<open>snap\<close> that returns normally has deleted its
  proxy: the scene holds exactly the nodes it held before.  A call that fails after it
  has issued more than two commands, that is after the proxy was created, leaves the
  proxy in the scene: nothing is cleaned up on the way out.
\<close>

theorem snap_cleanup:
  "(fst (snap source target attr value s) = Inr () \<longrightarrow>
      nodes (snd (snap source target attr value s)) = nodes s) \<and>
   (fst (snap source target attr value s) \<noteq> Inr () \<longrightarrow>
      2 < length (issued s (snd (snap source target attr value s))) \<longrightarrow>
      (\<exists>d. d \<notin> nodes s \<and> nodes (snd (snap source target attr value s)) = insert d (nodes s)))"
proof (intro conjI impI)
  assume "fst (snap source target attr value s) = Inr ()"
  then have ready: "snap_ready s source target attr" by (simp add: snap_ok_iff)
  then have "insert source (nodes s) = nodes s" unfolding snap_ready_def nodes_def by auto
  then show "nodes (snd (snap source target attr value s)) = nodes s"
    by (simp add: snap_ok [OF ready] snap_result_def nodes_def Let_def)
next
  assume "fst (snap source target attr value s) \<noteq> Inr ()"
    and "2 < length (issued s (snd (snap source target attr value s)))"
  then show "\<exists>d. d \<notin> nodes s \<and> nodes (snd (snap source target attr value s)) = insert d (nodes s)"
    unfolding snap_def issued_def nodes_def
    by (auto simp: prim_defs split: option.splits sum.splits prod.splits if_splits
          dest: proxy_name_fresh)
qed

theorem snap_cleanup_witness:
  "fst (snap ''fk1'' ''ikm1'' ''armSettings.blend'' 0 (bent_limb ''armSettings'' 1)) = Inr () \<and>
   nodes (snd (snap ''fk1'' ''ikm1'' ''armSettings.blend'' 0 (bent_limb ''armSettings'' 1))) =
     nodes (bent_limb ''armSettings'' 1) \<and>
   fst (snap ''fk1'' ''ghost'' ''armSettings.blend'' 0 (bent_limb ''armSettings'' 1)) \<noteq> Inr () \<and>
   2 < length (issued (bent_limb ''armSettings'' 1)
         (snd (snap ''fk1'' ''ghost'' ''armSettings.blend'' 0 (bent_limb ''armSettings'' 1)))) \<and>
   (\<exists>d. d \<notin> nodes (bent_limb ''armSettings'' 1) \<and>
        nodes (snd (snap ''fk1'' ''ghost'' ''armSettings.blend'' 0 (bent_limb ''armSettings'' 1))) =
          insert d (nodes (bent_limb ''armSettings'' 1)))"
proof -
  have ok: "fst (snap ''fk1'' ''ikm1'' ''armSettings.blend'' 0 (bent_limb ''armSettings'' 1)) = Inr ()"
    by (simp add: snap_ok_iff ready_fk1)
  from ok ghost_run
    snap_cleanup [of "''fk1''" "''ikm1''" "''armSettings.blend''" 0 "bent_limb ''armSettings'' 1"]
    snap_cleanup [of "''fk1''" "''ghost''" "''armSettings.blend''" 0 "bent_limb ''armSettings'' 1"]
  show ?thesis by blast
qed

text \<open>
  The claim as stated fails when the target does not exist: the re-parent raises, and the
  duplicate \<open>fk11\<close> of the source stays in the scene.
\<close>

theorem snap_cleanup_counterexample:
  "fst (snap ''fk1'' ''ghost'' ''armSettings.blend'' 0 (bent_limb ''armSettings'' 1)) =
     Inl MissingNode \<and>
   ''fk11'' \<notin> nodes (bent_limb ''armSettings'' 1) \<and>
   ''fk11'' \<in> nodes (snd (snap ''fk1'' ''ghost'' ''armSettings.blend'' 0
                            (bent_limb ''armSettings'' 1)))"
  unfolding snap_def bent_limb_def limb_scene_def
  by (simp add: prim_defs proxy_name_first nodes_def)

text \<open>
  C10, as the code has it.  A call of \<open>ik_to_fk\<close> on a control that has the blend plug
  issues, whatever \<open>ik_rotation\<close> and \<open>key\<close> are, the read of the blend plug and then,
  before any other command, the write of 0 to the handle's \<open>ikRoll\<close> plug; when the
  handle has that plug its value is 0 in the scene the call leaves, however the call ends.
  On a control without the blend plug the read of line 38 raises and line 41 is not
  reached.
\<close>

theorem ik_roll_reset:
  assumes "attrs s (blend_ctl @ ''.blend'') \<noteq> None"
  shows "take 2 (issued s (snd (ik_to_fk fk_list ikm_list ik_handle ik_pole ik_offset ik_ball
                                blend_ctl ik_rotation key s))) =
           [GetAttr (blend_ctl @ ''.blend''), SetAttr (ik_handle @ ''.ikRoll'') 0] \<and>
         (attrs s (ik_handle @ ''.ikRoll'') \<noteq> None \<longrightarrow>
            attrs (snd (ik_to_fk fk_list ikm_list ik_handle ik_pole ik_offset ik_ball
                          blend_ctl ik_rotation key s)) (ik_handle @ ''.ikRoll'') = Some 0)"
proof -
  let ?b = "blend_ctl @ ''.blend''" and ?r = "ik_handle @ ''.ikRoll''"
  let ?L = "log s @ [GetAttr ?b, SetAttr ?r 0]"
  let ?run = "ik_to_fk fk_list ikm_list ik_handle ik_pole ik_offset ik_ball
                blend_ctl ik_rotation key s"
  from assms obtain v where v: "attrs s ?b = Some v" by auto
  define s1 where "s1 = s\<lparr>log := log s @ [GetAttr ?b]\<rparr>"
  have get: "getAttr ?b s = (Inr v, s1)"
    by (simp add: getAttr_def record_cmd_def Let_def v s1_def)
  show ?thesis
  proof (cases "attrs s ?r")
    case None
    then have "setAttr ?r 0 s1 = (Inl MissingNode, s1\<lparr>log := ?L\<rparr>)"
      by (simp add: setAttr_def record_cmd_def Let_def s1_def)
    then have "?run = (Inl MissingNode, s1\<lparr>log := ?L\<rparr>)"
      unfolding ik_to_fk_def
      by (simp add: bindM_Inr [where m = "getAttr ?b" and s = s, OF get]
            bindM_Inl [where m = "setAttr ?r 0" and s = s1])
    with None show ?thesis by (simp add: issued_def)
  next
    case (Some r0)
    define s2 where "s2 = s1\<lparr>log := ?L, attrs := (attrs s)(?r \<mapsto> 0)\<rparr>"
    from Some have set: "setAttr ?r 0 s1 = (Inr (), s2)"
      by (simp add: setAttr_def record_cmd_def Let_def s1_def s2_def)
    define I where "I = (\<lambda>s::scene. attrs s ?r = Some (0::real) \<and> prefix ?L (log s))"
    have "I s2" by (simp add: I_def s2_def)
    moreover have "snd ?run = snd (bindM (ik_to_fk_positions fk_list) (\<lambda>(fk_001_pos, fk_002_pos, fk_003_pos).
      bindM (ik_to_fk_handle ikm_list ik_handle blend_ctl ik_rotation fk_003_pos) (\<lambda>_.
      bindM (ik_to_fk_pole fk_list ik_pole fk_001_pos fk_002_pos fk_003_pos) (\<lambda>_.
      bindM (ik_to_fk_foot fk_list ik_ball blend_ctl) (\<lambda>ball_ik.
      bindM (setAttr (blend_ctl @ ''.blend'') v) (\<lambda>_.
      ik_to_fk_keys ik_handle ik_pole ball_ik key))))) s2)"
      unfolding ik_to_fk_def
      by (simp add: bindM_Inr [where m = "getAttr ?b" and s = s, OF get]
            bindM_Inr [where m = "setAttr ?r 0" and s = s1, OF set])
    ultimately have "I (snd ?run)"
      using ik_to_fk_rest_keeps [OF I_def, of fk_list ikm_list blend_ctl ik_rotation ik_pole ik_ball v key]
      by (simp add: preserves_def)
    then have "attrs (snd ?run) ?r = Some 0" and "prefix ?L (log (snd ?run))"
      by (simp_all add: I_def)
    with issued_prefix_take [of s "[GetAttr ?b, SetAttr ?r 0]" "snd ?run"]
    show ?thesis by (simp add: numeral_2_eq_2)
  qed
qed

theorem ik_roll_reset_witness:
  "attrs (bent_limb ''armSettings'' 1) (''armSettings'' @ ''.blend'') \<noteq> None \<and>
   attrs (bent_limb ''armSettings'' 1) (''ikHandle'' @ ''.ikRoll'') = Some 30 \<and>
   take 2 (issued (bent_limb ''armSettings'' 1)
     (snd (ik_to_fk [''fk1'', ''fk2'', ''fk3''] [''ikm1'', ''ikm2'', ''ikm3''] ''ikHandle'' ''ikPole''
             ''ikOffset'' ''ikBall'' ''armSettings'' True True (bent_limb ''armSettings'' 1)))) =
     [GetAttr (''armSettings'' @ ''.blend''), SetAttr (''ikHandle'' @ ''.ikRoll'') 0] \<and>
   attrs (snd (ik_to_fk [''fk1'', ''fk2'', ''fk3''] [''ikm1'', ''ikm2'', ''ikm3''] ''ikHandle'' ''ikPole''
             ''ikOffset'' ''ikBall'' ''armSettings'' True True (bent_limb ''armSettings'' 1)))
     (''ikHandle'' @ ''.ikRoll'') = Some 0"
proof -
  have a: "attrs (bent_limb ''armSettings'' 1) (''armSettings'' @ ''.blend'') \<noteq> None"
    and b: "attrs (bent_limb ''armSettings'' 1) (''ikHandle'' @ ''.ikRoll'') = Some 30"
    by (simp_all add: bent_limb_def limb_scene_def)
  from a b ik_roll_reset [OF a, where ik_handle = "''ikHandle''"
      and fk_list = "[''fk1'', ''fk2'', ''fk3'']" and ikm_list = "[''ikm1'', ''ikm2'', ''ikm3'']"
      and ik_pole = "''ikPole''" and ik_offset = "''ikOffset''" and ik_ball = "''ikBall''"
      and ik_rotation = True and key = True]
  show ?thesis by simp
qed

text \<open>
  The claim as stated fails for a call on a control that has no blend plug: the read of
  line 38 raises, it is the only command the call issues, and the \<open>ikRoll\<close> plug of
  the handle keeps its value 30.
\<close>

theorem ik_roll_reset_counterexample:
  "attrs (bent_limb ''armSettings'' 1) (''noSettings'' @ ''.blend'') = None \<and>
   attrs (bent_limb ''armSettings'' 1) (''ikHandle'' @ ''.ikRoll'') = Some 30 \<and>
   fst (ik_to_fk [''fk1'', ''fk2'', ''fk3''] [''ikm1'', ''ikm2'', ''ikm3''] ''ikHandle'' ''ikPole''
          ''ikOffset'' ''ikBall'' ''noSettings'' True True (bent_limb ''armSettings'' 1)) =
     Inl MissingNode \<and>
   issued (bent_limb ''armSettings'' 1)
     (snd (ik_to_fk [''fk1'', ''fk2'', ''fk3''] [''ikm1'', ''ikm2'', ''ikm3''] ''ikHandle'' ''ikPole''
             ''ikOffset'' ''ikBall'' ''noSettings'' True True (bent_limb ''armSettings'' 1))) =
     [GetAttr (''noSettings'' @ ''.blend'')] \<and>
   attrs (snd (ik_to_fk [''fk1'', ''fk2'', ''fk3''] [''ikm1'', ''ikm2'', ''ikm3''] ''ikHandle'' ''ikPole''
             ''ikOffset'' ''ikBall'' ''noSettings'' True True (bent_limb ''armSettings'' 1)))
     (''ikHandle'' @ ''.ikRoll'') = Some 30"
  by (simp add: ik_to_fk_def bindM_def getAttr_def record_cmd_def Let_def issued_def
        bent_limb_def limb_scene_def)

text \<open>
  C4, as the code has it.  When a call of \<open>ik_to_fk\<close> or \<open>fk_to_ik\<close> gets through
  all its steps (the same call with \<open>key=False\<close> returns normally), the blend plug has
  afterwards the value it had before the call, whatever \<open>key\<close> is and also when the
  keyframing then raises.  Nothing restores the plug when an earlier step raises.
\<close>

theorem blend_restored:
  "(fst (ik_to_fk fk_list ikm_list ik_handle ik_pole ik_offset ik_ball blend_ctl ik_rotation
           False s) = Inr () \<longrightarrow>
      attrs (snd (ik_to_fk fk_list ikm_list ik_handle ik_pole ik_offset ik_ball blend_ctl
                    ik_rotation key s)) (blend_ctl @ ''.blend'') =
        attrs s (blend_ctl @ ''.blend'')) \<and>
   (fst (fk_to_ik fk_list fk_offset_list ikm_list ik_ball blend_ctl False s) = Inr () \<longrightarrow>
      attrs (snd (fk_to_ik fk_list fk_offset_list ikm_list ik_ball blend_ctl key s))
        (blend_ctl @ ''.blend'') = attrs s (blend_ctl @ ''.blend''))"
  by (intro conjI impI ik_to_fk_restores fk_to_ik_restores)

theorem blend_restored_witness:
  "fst (ik_to_fk [''fk1'', ''fk2'', ''fk3''] [''ikm1'', ''ikm2'', ''ikm3''] ''ikHandle''
          ''ikPole'' ''ikOffset'' ''ikBall'' ''armSettings'' True False
          (straight_limb ''armSettings'' 1)) = Inr () \<and>
   attrs (snd (ik_to_fk [''fk1'', ''fk2'', ''fk3''] [''ikm1'', ''ikm2'', ''ikm3''] ''ikHandle''
          ''ikPole'' ''ikOffset'' ''ikBall'' ''armSettings'' True True
          (straight_limb ''armSettings'' 1))) (''armSettings'' @ ''.blend'') = Some 1 \<and>
   fst (fk_to_ik [''fk1'', ''fk2'', ''fk3''] [] [''ikm1'', ''ikm2'', ''ikm3''] ''ikBall''
          ''armSettings'' False (straight_limb ''armSettings'' 1)) = Inr () \<and>
   attrs (snd (fk_to_ik [''fk1'', ''fk2'', ''fk3''] [] [''ikm1'', ''ikm2'', ''ikm3''] ''ikBall''
          ''armSettings'' True (straight_limb ''armSettings'' 1)))
     (''armSettings'' @ ''.blend'') = Some 1"
proof -
  have "attrs (straight_limb ''armSettings'' 1) (''armSettings'' @ ''.blend'') = Some 1"
    by (simp add: straight_limb_def limb_scene_def)
  with arm_ik_to_fk_runs arm_fk_to_ik_runs
    blend_restored [where s = "straight_limb ''armSettings'' 1" and blend_ctl = "''armSettings''"
      and fk_list = "[''fk1'', ''fk2'', ''fk3'']" and ikm_list = "[''ikm1'', ''ikm2'', ''ikm3'']"
      and ik_handle = "''ikHandle''" and ik_pole = "''ikPole''" and ik_offset = "''ikOffset''"
      and ik_ball = "''ikBall''" and ik_rotation = True and key = True
      and fk_offset_list = "[]"]
  show ?thesis by simp
qed

text \<open>
  The claim as stated fails when a step raises: with a top-level control first in
  \<open>fk_list\<close> the first \<open>snap\<close> raises at the parent lookup, after it has set the
  blend plug to 0, and the plug, 1 before the call, stays 0.
\<close>

theorem blend_restored_counterexample:
  "attrs (straight_limb ''armSettings'' 1) ''armSettings.blend'' = Some 1 \<and>
   fst (fk_to_ik [''rig'', ''fk2'', ''fk3''] [] [''ikm1'', ''ikm2'', ''ikm3''] ''ikBall''
          ''armSettings'' True (straight_limb ''armSettings'' 1)) = Inl IndexError \<and>
   attrs (snd (fk_to_ik [''rig'', ''fk2'', ''fk3''] [] [''ikm1'', ''ikm2'', ''ikm3''] ''ikBall''
          ''armSettings'' True (straight_limb ''armSettings'' 1))) ''armSettings.blend'' = Some 0"
  by (simp add: run_defs prim_defs proxy_name_first)

text \<open>
  C9.  On an arm (the name of the blend control does not contain \<open>leg\<close>) a call of
  \<open>ik_to_fk\<close> or \<open>fk_to_ik\<close> with \<open>key=True\<close> never returns normally.  When the
  steps before the keyframing succeed (the same call with \<open>key=False\<close> returns normally,
  and for \<open>fk_to_ik\<close> the controls of \<open>fk_list\<close> exist), the exception raised is the
  \<open>UnboundLocalError\<close> of the read of \<open>ball_ik\<close>, respectively \<open>ball_fk\<close>.
\<close>

theorem key_arm_unbound:
  assumes "\<not> is_leg blend_ctl"
  shows
   "fst (ik_to_fk fk_list ikm_list ik_handle ik_pole ik_offset ik_ball blend_ctl ik_rotation
           True s) \<noteq> Inr () \<and>
    fst (fk_to_ik fk_list fk_offset_list ikm_list ik_ball blend_ctl True s) \<noteq> Inr () \<and>
    (fst (ik_to_fk fk_list ikm_list ik_handle ik_pole ik_offset ik_ball blend_ctl ik_rotation
           False s) = Inr () \<longrightarrow>
     fst (ik_to_fk fk_list ikm_list ik_handle ik_pole ik_offset ik_ball blend_ctl ik_rotation
           True s) = Inl UnboundLocalError) \<and>
    (fst (fk_to_ik fk_list fk_offset_list ikm_list ik_ball blend_ctl False s) = Inr () \<and>
     set fk_list \<subseteq> nodes s \<longrightarrow>
     fst (fk_to_ik fk_list fk_offset_list ikm_list ik_ball blend_ctl True s) =
       Inl UnboundLocalError)"
proof (intro conjI impI)
  assume "fst (fk_to_ik fk_list fk_offset_list ikm_list ik_ball blend_ctl False s) = Inr () \<and>
     set fk_list \<subseteq> nodes s"
  then have ok: "fst (fk_to_ik fk_list fk_offset_list ikm_list ik_ball blend_ctl False s) = Inr ()"
    and "list_all (\<lambda>n. poses s n \<noteq> None) fk_list"
    by (auto simp: nodes_def list_all_iff)
  with assms show "fst (fk_to_ik fk_list fk_offset_list ikm_list ik_ball blend_ctl True s) =
       Inl UnboundLocalError"
    by (simp add: fk_to_ik_arm_unbound)
qed (use assms in \<open>simp_all add: ik_to_fk_arm_never fk_to_ik_arm_never ik_to_fk_arm_unbound\<close>)

theorem key_arm_unbound_witness:
  "\<not> is_leg ''armSettings'' \<and>
   fst (ik_to_fk [''fk1'', ''fk2'', ''fk3''] [''ikm1'', ''ikm2'', ''ikm3''] ''ikHandle''
          ''ikPole'' ''ikOffset'' ''ikBall'' ''armSettings'' True False
          (straight_limb ''armSettings'' 1)) = Inr () \<and>
   fst (ik_to_fk [''fk1'', ''fk2'', ''fk3''] [''ikm1'', ''ikm2'', ''ikm3''] ''ikHandle''
          ''ikPole'' ''ikOffset'' ''ikBall'' ''armSettings'' True True
          (straight_limb ''armSettings'' 1)) = Inl UnboundLocalError \<and>
   fst (fk_to_ik [''fk1'', ''fk2'', ''fk3''] [] [''ikm1'', ''ikm2'', ''ikm3''] ''ikBall''
          ''armSettings'' False (straight_limb ''armSettings'' 1)) = Inr () \<and>
   fst (fk_to_ik [''fk1'', ''fk2'', ''fk3''] [] [''ikm1'', ''ikm2'', ''ikm3''] ''ikBall''
          ''armSettings'' True (straight_limb ''armSettings'' 1)) = Inl UnboundLocalError"
  using arm_not_leg arm_nodes arm_ik_to_fk_runs arm_fk_to_ik_runs
    key_arm_unbound [OF arm_not_leg, where s = "straight_limb ''armSettings'' 1"
      and fk_list = "[''fk1'', ''fk2'', ''fk3'']" and ikm_list = "[''ikm1'', ''ikm2'', ''ikm3'']"
      and ik_handle = "''ikHandle''" and ik_pole = "''ikPole''" and ik_offset = "''ikOffset''"
      and ik_ball = "''ikBall''" and ik_rotation = True and fk_offset_list = "[]"]
  by simp

text \<open>
  C8, as the code has it.  Take a call whose steps succeed (the same call with
  \<open>key=False\<close> returns normally).  \<open>ik_to_fk\<close> snaps the IK handle when
  \<open>ik_rotation\<close> is set and nothing else, writes a world matrix to the handle (when
  snapped), to the pole control and, exactly when the name of the blend control contains
  \<open>leg\<close>, to the IK ball control, and pushes the pole control once.  \<open>fk_to_ik\<close>
  snaps the first three controls of \<open>fk_list\<close> and, exactly when the name of the blend
  control contains \<open>leg\<close>, the last one as a fourth; it places no pole.
\<close>

theorem ball_step_iff_leg:
  "(fst (ik_to_fk fk_list ikm_list ik_handle ik_pole ik_offset ik_ball blend_ctl ik_rotation
           False s) = Inr () \<longrightarrow>
      snapped (issued s (snd (ik_to_fk fk_list ikm_list ik_handle ik_pole ik_offset ik_ball
                                blend_ctl ik_rotation key s))) =
        (if ik_rotation then [ik_handle] else []) \<and>
      matrix_written (issued s (snd (ik_to_fk fk_list ikm_list ik_handle ik_pole ik_offset
                                       ik_ball blend_ctl ik_rotation key s))) =
        (if ik_rotation then [ik_handle] else []) @ [ik_pole] @
          (if is_leg blend_ctl then [ik_ball] else []) \<and>
      moved_rel (issued s (snd (ik_to_fk fk_list ikm_list ik_handle ik_pole ik_offset ik_ball
                                  blend_ctl ik_rotation key s))) = [ik_pole]) \<and>
   (fst (fk_to_ik fk_list fk_offset_list ikm_list ik_ball blend_ctl False s) = Inr () \<longrightarrow>
      snapped (issued s (snd (fk_to_ik fk_list fk_offset_list ikm_list ik_ball blend_ctl
                                key s))) =
        take 3 fk_list @ (if is_leg blend_ctl then [last fk_list] else []) \<and>
      matrix_written (issued s (snd (fk_to_ik fk_list fk_offset_list ikm_list ik_ball
                                       blend_ctl key s))) =
        take 3 fk_list @ (if is_leg blend_ctl then [last fk_list] else []) \<and>
      moved_rel (issued s (snd (fk_to_ik fk_list fk_offset_list ikm_list ik_ball blend_ctl
                                  key s))) = [])"
proof (intro conjI impI)
  assume ok: "fst (ik_to_fk fk_list ikm_list ik_handle ik_pole ik_offset ik_ball blend_ctl
                     ik_rotation False s) = Inr ()"
  note t = logs_issued [OF ik_to_fk_logs [OF ok, of key]]
  show "snapped (issued s (snd (ik_to_fk fk_list ikm_list ik_handle ik_pole ik_offset ik_ball
                                blend_ctl ik_rotation key s))) =
        (if ik_rotation then [ik_handle] else [])"
    by (simp add: snapped_def t)
  show "matrix_written (issued s (snd (ik_to_fk fk_list ikm_list ik_handle ik_pole ik_offset
                                       ik_ball blend_ctl ik_rotation key s))) =
        (if ik_rotation then [ik_handle] else []) @ [ik_pole] @
          (if is_leg blend_ctl then [ik_ball] else [])"
    by (simp add: matrix_written_def t)
  show "moved_rel (issued s (snd (ik_to_fk fk_list ikm_list ik_handle ik_pole ik_offset ik_ball
                                  blend_ctl ik_rotation key s))) = [ik_pole]"
    by (simp add: moved_rel_def t)
next
  assume ok: "fst (fk_to_ik fk_list fk_offset_list ikm_list ik_ball blend_ctl False s) = Inr ()"
  note t = logs_issued [OF fk_to_ik_logs [OF ok, of key]]
  note l = take3 [OF fk_to_ik_length [OF ok]]
  show "snapped (issued s (snd (fk_to_ik fk_list fk_offset_list ikm_list ik_ball blend_ctl
                                key s))) =
        take 3 fk_list @ (if is_leg blend_ctl then [last fk_list] else [])"
    by (simp add: snapped_def t l)
  show "matrix_written (issued s (snd (fk_to_ik fk_list fk_offset_list ikm_list ik_ball
                                       blend_ctl key s))) =
        take 3 fk_list @ (if is_leg blend_ctl then [last fk_list] else [])"
    by (simp add: matrix_written_def t l)
  show "moved_rel (issued s (snd (fk_to_ik fk_list fk_offset_list ikm_list ik_ball blend_ctl
                                  key s))) = []"
    by (simp add: moved_rel_def t)
qed

theorem ball_step_iff_leg_witness:
  "fst (ik_to_fk [''fk1'', ''fk2'', ''fk3'', ''fk5''] [''ikm1'', ''ikm2'', ''ikm3'', ''ikm6'']
          ''ikHandle'' ''ikPole'' ''ikOffset'' ''ikBall'' ''legSettings'' True False
          (straight_limb ''legSettings'' 1)) = Inr () \<and>
   matrix_written (issued (straight_limb ''legSettings'' 1)
     (snd (ik_to_fk [''fk1'', ''fk2'', ''fk3'', ''fk5''] [''ikm1'', ''ikm2'', ''ikm3'', ''ikm6'']
          ''ikHandle'' ''ikPole'' ''ikOffset'' ''ikBall'' ''legSettings'' True True
          (straight_limb ''legSettings'' 1)))) = [''ikHandle'', ''ikPole'', ''ikBall''] \<and>
   fst (fk_to_ik [''fk1'', ''fk2'', ''fk3'', ''fk5''] [] [''ikm1'', ''ikm2'', ''ikm3'', ''ikm6'']
          ''ikBall'' ''legSettings'' False (straight_limb ''legSettings'' 1)) = Inr () \<and>
   snapped (issued (straight_limb ''legSettings'' 1)
     (snd (fk_to_ik [''fk1'', ''fk2'', ''fk3'', ''fk5''] [] [''ikm1'', ''ikm2'', ''ikm3'', ''ikm6'']
          ''ikBall'' ''legSettings'' True (straight_limb ''legSettings'' 1)))) =
     [''fk1'', ''fk2'', ''fk3'', ''fk5''] \<and>
   fst (fk_to_ik [''fk1'', ''fk2'', ''fk3''] [] [''ikm1'', ''ikm2'', ''ikm3''] ''ikBall''
          ''armSettings'' False (straight_limb ''armSettings'' 1)) = Inr () \<and>
   snapped (issued (straight_limb ''armSettings'' 1)
     (snd (fk_to_ik [''fk1'', ''fk2'', ''fk3''] [] [''ikm1'', ''ikm2'', ''ikm3''] ''ikBall''
          ''armSettings'' True (straight_limb ''armSettings'' 1)))) =
     [''fk1'', ''fk2'', ''fk3'']"
  using leg_ik_to_fk_runs leg_fk_to_ik_runs arm_fk_to_ik_runs leg_is_leg arm_not_leg
    ball_step_iff_leg [where s = "straight_limb ''legSettings'' 1" and blend_ctl = "''legSettings''"
      and fk_list = "[''fk1'', ''fk2'', ''fk3'', ''fk5'']"
      and ikm_list = "[''ikm1'', ''ikm2'', ''ikm3'', ''ikm6'']"
      and ik_handle = "''ikHandle''" and ik_pole = "''ikPole''" and ik_offset = "''ikOffset''"
      and ik_ball = "''ikBall''" and ik_rotation = True and key = True
      and fk_offset_list = "[]"]
    ball_step_iff_leg [where s = "straight_limb ''armSettings'' 1" and blend_ctl = "''armSettings''"
      and fk_list = "[''fk1'', ''fk2'', ''fk3'']"
      and ikm_list = "[''ikm1'', ''ikm2'', ''ikm3'']"
      and ik_handle = "''ikHandle''" and ik_pole = "''ikPole''" and ik_offset = "''ikOffset''"
      and ik_ball = "''ikBall''" and ik_rotation = True and key = True
      and fk_offset_list = "[]"]
  by simp

text \<open>
  The claim as stated fails on an arm: a call of \<open>ik_to_fk\<close> that runs to its end
  transfers one control, the IK handle, not three; a call of \<open>fk_to_ik\<close> that runs to
  its end transfers three controls and places no pole.
\<close>

theorem ball_step_iff_leg_counterexample:
  "\<not> is_leg ''armSettings'' \<and>
   fst (ik_to_fk [''fk1'', ''fk2'', ''fk3''] [''ikm1'', ''ikm2'', ''ikm3''] ''ikHandle''
          ''ikPole'' ''ikOffset'' ''ikBall'' ''armSettings'' True False
          (straight_limb ''armSettings'' 1)) = Inr () \<and>
   snapped (issued (straight_limb ''armSettings'' 1)
     (snd (ik_to_fk [''fk1'', ''fk2'', ''fk3''] [''ikm1'', ''ikm2'', ''ikm3''] ''ikHandle''
          ''ikPole'' ''ikOffset'' ''ikBall'' ''armSettings'' True False
          (straight_limb ''armSettings'' 1)))) = [''ikHandle''] \<and>
   fst (fk_to_ik [''fk1'', ''fk2'', ''fk3''] [] [''ikm1'', ''ikm2'', ''ikm3''] ''ikBall''
          ''armSettings'' False (straight_limb ''armSettings'' 1)) = Inr () \<and>
   moved_rel (issued (straight_limb ''armSettings'' 1)
     (snd (fk_to_ik [''fk1'', ''fk2'', ''fk3''] [] [''ikm1'', ''ikm2'', ''ikm3''] ''ikBall''
          ''armSettings'' False (straight_limb ''armSettings'' 1)))) = []"
  using arm_not_leg arm_ik_to_fk_runs arm_fk_to_ik_runs
    logs_issued [OF ik_to_fk_logs [OF arm_ik_to_fk_runs, of False]]
    logs_issued [OF fk_to_ik_logs [OF arm_fk_to_ik_runs, of False]]
  by (simp add: snapped_def moved_rel_def)

text \<open>
  C1, as the code has it.  Take a chain of three distinct joints whose cosine between the
  upper segment and the root-to-end line is, in exact arithmetic, at most 0.997 and at
  least -0.999.  The two margins keep the chain away from the threshold 0.998, where the
  rounding of the double decides the test of line 80, and from -1, where the limb is
  folded back on itself and the code normalises a vector that is zero up to rounding.
  Then \<open>ik_to_fk\<close> takes the general branch: the pole direction is the unit vector of
  \<open>midPos - goalProjection\<close> with
  \<open>goalProjection = rootPos + rootGoalNorm * upperLength * cosAngle\<close>, the pole control
  ends at \<open>midPos + poleDirection * totalLength\<close>, and its rotate channel is zero.
\<close>

theorem general_case_pole:
  assumes ready: "limb_ready s fk_list ikm_list ik_handle ik_pole ik_ball blend_ctl ik_rotation
                    root_world mid_world end_world"
    and pos: "rootPos = translation root_world" "midPos = translation mid_world"
      "endPos = translation end_world"
    and nd: "rootPos \<noteq> midPos" "midPos \<noteq> endPos" "rootPos \<noteq> endPos"
    and c: "- 0.999 \<le> cos_angle rootPos midPos endPos"
      "cos_angle rootPos midPos endPos \<le> 0.997"
  shows "ik_to_fk_pole_y rootPos midPos (vlength (midPos - rootPos)) (unit (endPos - rootPos))
           (unit (midPos - rootPos)) mid_world =
           Inr (unit (midPos - goal_projection rootPos midPos endPos)) \<and>
         position (snd (ik_to_fk fk_list ikm_list ik_handle ik_pole ik_offset ik_ball blend_ctl
                   ik_rotation key s)) ik_pole =
           Some (midPos + vscale (unit (midPos - goal_projection rootPos midPos endPos))
                            (total_length rootPos midPos endPos)) \<and>
         rotate (snd (ik_to_fk fk_list ikm_list ik_handle ik_pole ik_offset ik_ball blend_ctl
                   ik_rotation key s)) ik_pole = Some (MVector 0 0 0)"
proof -
  from c have c': "- 1 < cos_angle rootPos midPos endPos"
    "cos_angle rootPos midPos endPos \<le> 0.998"
    by simp_all
  from pole_at_position [OF general_position [OF ready pos nd(1) nd(3) c', of ik_offset key]]
    pole_y_general [OF c'(2) offset_nonzero [OF nd(1) nd(3) c'], of mid_world]
  show ?thesis by simp
qed

theorem general_case_pole_witness:
  "limb_ready (bent_limb ''armSettings'' 1) [''fk1'', ''fk2'', ''fk3'']
     [''ikm1'', ''ikm2'', ''ikm3''] ''ikHandle'' ''ikPole'' ''ikBall'' ''armSettings'' True
     (identity_matrix (MVector 0 0 0)) (identity_matrix (MVector 1 0 0))
     (identity_matrix (MVector 2 1 0)) \<and>
   - 0.999 \<le> cos_angle (MVector 0 0 0) (MVector 1 0 0) (MVector 2 1 0) \<and>
   cos_angle (MVector 0 0 0) (MVector 1 0 0) (MVector 2 1 0) \<le> 0.997 \<and>
   position (snd (ik_to_fk [''fk1'', ''fk2'', ''fk3''] [''ikm1'', ''ikm2'', ''ikm3''] ''ikHandle''
          ''ikPole'' ''ikOffset'' ''ikBall'' ''armSettings'' True True
          (bent_limb ''armSettings'' 1))) ''ikPole'' =
     Some (MVector 1 0 0 +
           vscale (unit (MVector 1 0 0 -
                     goal_projection (MVector 0 0 0) (MVector 1 0 0) (MVector 2 1 0)))
             (total_length (MVector 0 0 0) (MVector 1 0 0) (MVector 2 1 0))) \<and>
   rotate (snd (ik_to_fk [''fk1'', ''fk2'', ''fk3''] [''ikm1'', ''ikm2'', ''ikm3''] ''ikHandle''
          ''ikPole'' ''ikOffset'' ''ikBall'' ''armSettings'' True True
          (bent_limb ''armSettings'' 1))) ''ikPole'' = Some (MVector 0 0 0)"
  using bent_ready bent_cos_margin
    general_case_pole [OF bent_ready rig_translations(1) [symmetric]
      rig_translations(1) [symmetric] rig_translations(1) [symmetric] _ _ _ bent_cos_margin,
      of "''ikOffset''" True]
  by simp

text \<open>
  The claim as stated fails at its worked example, root (0,0,0), mid (1,0,0), end (2,1,0):
  the cosine is 2 / sqrt 5, about 0.894, far from the threshold, and the branch is the
  general one, but the projection the code computes is (0.8, 0.4, 0), not
  (0.894, 0.447, 0), and the pole direction is the unit vector of (0.2, -0.4, 0), which
  is not parallel to (0.106, -0.447, 0).
\<close>

theorem general_case_pole_counterexample:
  "cos_angle (MVector 0 0 0) (MVector 1 0 0) (MVector 2 1 0) = 2 / sqrt 5 \<and>
   cos_angle (MVector 0 0 0) (MVector 1 0 0) (MVector 2 1 0) \<le> 0.997 \<and>
   goal_projection (MVector 0 0 0) (MVector 1 0 0) (MVector 2 1 0) = MVector (4 / 5) (2 / 5) 0 \<and>
   9 / 100 < \<bar>vx (goal_projection (MVector 0 0 0) (MVector 1 0 0) (MVector 2 1 0)) - 0.894\<bar> \<and>
   ik_to_fk_pole_y (MVector 0 0 0) (MVector 1 0 0) (vlength (MVector 1 0 0 - MVector 0 0 0))
     (unit (MVector 2 1 0 - MVector 0 0 0)) (unit (MVector 1 0 0 - MVector 0 0 0))
     (identity_matrix (MVector 1 0 0)) = Inr (unit (MVector (1 / 5) (- (2 / 5)) 0)) \<and>
   cross (MVector (1 / 5) (- (2 / 5)) 0) (MVector 0.106 (- 0.447) 0) \<noteq> MVector 0 0 0"
proof -
  have nz: "vlength (MVector 1 0 0 -
      goal_projection (MVector 0 0 0) (MVector 1 0 0) (MVector 2 1 0)) \<noteq> 0"
    by (rule offset_nonzero [OF _ _ bent_cos_bounds]) simp_all
  from pole_y_general [OF bent_cos_bounds(2) nz, of "identity_matrix (MVector 1 0 0)"]
  have "ik_to_fk_pole_y (MVector 0 0 0) (MVector 1 0 0)
     (vlength (MVector 1 0 0 - MVector 0 0 0))
     (unit (MVector 2 1 0 - MVector 0 0 0)) (unit (MVector 1 0 0 - MVector 0 0 0))
     (identity_matrix (MVector 1 0 0)) = Inr (unit (MVector (1 / 5) (- (2 / 5)) 0))"
    by (simp add: bent_projection minus_MVector_def)
  moreover have "cross (MVector (1 / 5) (- (2 / 5)) 0) (MVector 0.106 (- 0.447) 0) \<noteq>
      MVector 0 0 0"
    by (simp add: cross_def)
  moreover have "9 / 100 <
      \<bar>vx (goal_projection (MVector 0 0 0) (MVector 1 0 0) (MVector 2 1 0)) - 0.894\<bar>"
    by (simp add: bent_projection)
  ultimately show ?thesis
    using bent_cos bent_cos_margin(2) bent_projection by blast
qed










end
